theory Spec2Isabelle
  imports Complex_Main
begin

section \<open>The DICL forecasting pipeline (src/dicl/dicl.py)\<close>

text \<open>
  The pipeline disentangles a window of observations, hands the components to an external
  in-context trainer, rescales the trainer's statistics back and inverts the
  disentangling. NumPy's float64 arrays are modelled over \<^typ>\<open>real\<close>: every
  arithmetic operation of the source is the same operation on reals, so the development
  speaks about which formula the code applies and how the data flows, not about rounding
  (nor about the inf and NaN that NumPy returns for a division by a zero
  \<open>rescale_factor\<close>, where HOL's division returns 0). Only the exactness of the
  disentangler's round trip is a matter of rounding; for it the two scalers are also
  given in float64 arithmetic.
  The trainer (\<open>dicl.icl.iclearner\<close>), the calibration helper
  (\<open>dicl.utils.calibration\<close>) and the fitted scikit-learn stages are not part of the
  sources; they are parameters, and an exception raised inside one of them (which the
  pipeline would let through unchanged) is not modelled.
\<close>

subsection \<open>Arrays, slices and NumPy's elementwise operations\<close>

type_synonym vec = "real list"

text \<open>A 2-D array is the list of its rows. The column count of an array with no rows is
  not represented; the theorems below are about windows with at least two rows.\<close>

type_synonym matrix = "real list list"

datatype error = AssertionError | AttributeError string | IndexError | ValueError

text \<open>The values a metrics dictionary holds. \<open>NaN\<close> stands for the all-NaN result NumPy
  returns (with a warning, not an exception) for the mean of an empty slice.\<close>

datatype ndarray = Scalar real | Array1 vec | Array2 matrix | NaN

text \<open>\<open>xs[:k]\<close> and \<open>xs[k:]\<close>: a negative index counts from the end, and both are
  clamped to the range of the list.\<close>

definition slice_to :: "'a list \<Rightarrow> int \<Rightarrow> 'a list" where
  "slice_to xs k = (if k < 0 then take (nat (int (length xs) + k)) xs else take (nat k) xs)"

definition slice_from :: "'a list \<Rightarrow> int \<Rightarrow> 'a list" where
  "slice_from xs k = (if k < 0 then drop (nat (int (length xs) + k)) xs else drop (nat k) xs)"

text \<open>\<open>X.shape[1]\<close>.\<close>

definition shape1 :: "matrix \<Rightarrow> nat" where
  "shape1 M = (case M of [] \<Rightarrow> 0 | r # _ \<Rightarrow> length r)"

definition zeros_like :: "matrix \<Rightarrow> matrix" where
  "zeros_like M = map (map (\<lambda>_. 0)) M"

fun sequence :: "(error + 'a) list \<Rightarrow> error + 'a list" where
  "sequence [] = Inr []"
| "sequence (r # rs) =
     (case r of
        Inl e \<Rightarrow> Inl e
      | Inr x \<Rightarrow> (case sequence rs of Inl e \<Rightarrow> Inl e | Inr xs \<Rightarrow> Inr (x # xs)))"

text \<open>Broadcasting along one axis: equal sizes combine elementwise, a size of one is
  stretched, anything else is NumPy's ValueError.\<close>

definition broadcast :: "('a \<Rightarrow> 'a \<Rightarrow> error + 'b) \<Rightarrow> 'a list \<Rightarrow> 'a list \<Rightarrow> error + 'b list" where
  "broadcast f xs ys =
     (if length xs = length ys then sequence (map2 f xs ys)
      else if length xs = 1 then sequence (map (f (hd xs)) ys)
      else if length ys = 1 then sequence (map (\<lambda>x. f x (hd ys)) xs)
      else Inl ValueError)"

definition np_sub1 :: "vec \<Rightarrow> vec \<Rightarrow> error + vec" where
  "np_sub1 xs ys = broadcast (\<lambda>x y. Inr (x - y)) xs ys"

definition np_add1 :: "vec \<Rightarrow> vec \<Rightarrow> error + vec" where
  "np_add1 xs ys = broadcast (\<lambda>x y. Inr (x + y)) xs ys"

definition np_sub2 :: "matrix \<Rightarrow> matrix \<Rightarrow> error + matrix" where
  "np_sub2 A B = broadcast np_sub1 A B"

text \<open>\<open>np.concatenate(cols, axis=1)\<close> of column arrays of shape (L, 1): the columns must
  agree in length, and there must be at least one.\<close>

definition concatenate_axis1 :: "vec list \<Rightarrow> error + matrix" where
  "concatenate_axis1 cols =
     (case cols of
        [] \<Rightarrow> Inl ValueError
      | c # cs \<Rightarrow>
          if list_all (\<lambda>c'. length c' = length c) cs
          then Inr (map (\<lambda>t. map (\<lambda>col. col ! t) cols) [0..<length c])
          else Inl ValueError)"

text \<open>\<open>np.linalg.norm(M, axis=1)\<close>, \<open>v.mean(axis=0)\<close> on a 1-D array and
  \<open>M.mean(axis=0)\<close> on a 2-D array.\<close>

definition norm_axis1 :: "matrix \<Rightarrow> vec" where
  "norm_axis1 M = map (\<lambda>r. sqrt (sum_list (map (\<lambda>x. x\<^sup>2) r))) M"

definition mean1 :: "vec \<Rightarrow> ndarray" where
  "mean1 xs = (if xs = [] then NaN else Scalar (sum_list xs / real (length xs)))"

definition mean_axis0 :: "matrix \<Rightarrow> ndarray" where
  "mean_axis0 M =
     (if M = [] then NaN
      else Array1 (map (\<lambda>j. sum_list (map (\<lambda>r. r ! j) M) / real (length M)) [0..<shape1 M]))"

subsection \<open>The external collaborators\<close>

text \<open>What the trainer returns per component: the statistics in rescaled units (already
  one-dimensional, so \<open>flatten()\<close> leaves them as they are) and the minimum and maximum
  it rescaled the component with.\<close>

record ICLObject =
  mean_arr :: vec
  mode_arr :: vec
  sigma_arr :: vec
  rescaling_min :: real
  rescaling_max :: real

text \<open>The trainer's methods over its own state \<open>'ts\<close>. The second argument of \<open>icl\<close>
  is \<open>if_true_mean_else_mode\<close>, \<open>None\<close> when the call leaves it to the default.\<close>

record 'ts trainer =
  MultiVariateICLTrainer :: "nat \<Rightarrow> real \<Rightarrow> real \<Rightarrow> 'ts"
  update_context :: "matrix \<Rightarrow> matrix \<Rightarrow> matrix \<Rightarrow> nat \<Rightarrow> bool \<Rightarrow> 'ts \<Rightarrow> 'ts"
  icl :: "bool \<Rightarrow> bool option \<Rightarrow> 'ts \<Rightarrow> 'ts"
  compute_statistics :: "'ts \<Rightarrow> ICLObject list \<times> 'ts"
  predict_long_horizon_llm :: "int \<Rightarrow> bool \<Rightarrow> bool \<Rightarrow> 'ts \<Rightarrow> ICLObject list \<times> 'ts"

text \<open>A fitted stage of a scikit-learn pipeline.\<close>

record stage =
  stage_transform :: "matrix \<Rightarrow> matrix"
  stage_inverse_transform :: "matrix \<Rightarrow> matrix"

definition IdentityTransformer :: stage where
  "IdentityTransformer =
     \<lparr>stage_transform = map (map (\<lambda>x. x * 1)),
      stage_inverse_transform = map (map (\<lambda>x. x * 1))\<rparr>"

type_synonym pipeline = "stage list"

definition make_pipeline :: "stage list \<Rightarrow> pipeline" where
  "make_pipeline stages = stages"

text \<open>A pipeline transforms through its stages in order and inverts through them in
  reverse order.\<close>

definition pipeline_transform :: "pipeline \<Rightarrow> matrix \<Rightarrow> matrix" where
  "pipeline_transform p M = foldl (\<lambda>Z st. stage_transform st Z) M p"

definition pipeline_inverse_transform :: "pipeline \<Rightarrow> matrix \<Rightarrow> matrix" where
  "pipeline_inverse_transform p Z = foldr stage_inverse_transform p Z"

text \<open>\<open>compute_ks_metric(groundtruth, icl_object, n_components, n_features,
  inverse_transform, burnin)\<close> returns the per-feature statistic and the quantile data.\<close>

type_synonym 'q ks_helper =
  "matrix \<Rightarrow> ICLObject list \<Rightarrow> nat \<Rightarrow> nat \<Rightarrow> (matrix \<Rightarrow> matrix) \<Rightarrow> int \<Rightarrow> vec \<times> 'q"

subsection \<open>The pipeline object\<close>

text \<open>The attributes \<open>__init__\<close> sets, and those only a prediction call sets
  (\<open>None\<close> while the attribute does not exist).\<close>

record 'ts dicl =
  n_features :: nat
  n_components :: nat
  rescale_factor :: real
  up_shift :: real
  disentangler :: pipeline
  iclearner :: 'ts
  context_length :: "nat option"
  X :: "matrix option"
  prediction_horizon :: "int option"
  icl_object :: "ICLObject list option"
  mean :: "matrix option"
  mode :: "matrix option"
  lb :: "matrix option"
  ub :: "matrix option"

text \<open>\<open>DICL.__init__\<close>; the two scalers the constructor puts in front of the
  disentangler are given as the stages \<open>fit_disentangler\<close> has fitted (fitting is
  scikit-learn's and is not modelled).\<close>

definition DICL_init ::
  "'ts trainer \<Rightarrow> stage \<Rightarrow> stage \<Rightarrow> stage \<Rightarrow> nat \<Rightarrow> nat \<Rightarrow> real \<Rightarrow> real \<Rightarrow> 'ts dicl" where
  "DICL_init tr MinMaxScaler StandardScaler dis nf nc rf up =
     \<lparr>n_features = nf, n_components = nc, rescale_factor = rf, up_shift = up,
      disentangler = make_pipeline [MinMaxScaler, StandardScaler, dis],
      iclearner = MultiVariateICLTrainer tr nc rf up,
      context_length = None, X = None, prediction_horizon = None, icl_object = None,
      mean = None, mode = None, lb = None, ub = None\<rparr>"

definition vICL_init ::
  "'ts trainer \<Rightarrow> stage \<Rightarrow> stage \<Rightarrow> nat \<Rightarrow> real \<Rightarrow> real \<Rightarrow> 'ts dicl" where
  "vICL_init tr MinMaxScaler StandardScaler nf rf up =
     DICL_init tr MinMaxScaler StandardScaler IdentityTransformer nf nf rf up"

text \<open>\<open>DICL_PCA.__init__\<close>; the fitted reduction is given as a stage.\<close>

definition DICL_PCA_init ::
  "'ts trainer \<Rightarrow> stage \<Rightarrow> stage \<Rightarrow> stage \<Rightarrow> nat \<Rightarrow> nat \<Rightarrow> real \<Rightarrow> real \<Rightarrow> 'ts dicl" where
  "DICL_PCA_init tr MinMaxScaler StandardScaler PCA nf nc rf up =
     DICL_init tr MinMaxScaler StandardScaler PCA nf nc rf up"

definition transform :: "'ts dicl \<Rightarrow> matrix \<Rightarrow> matrix" where
  "transform s M = pipeline_transform (disentangler s) M"

definition inverse_transform :: "'ts dicl \<Rightarrow> matrix \<Rightarrow> matrix" where
  "inverse_transform s Z = pipeline_inverse_transform (disentangler s) Z"

subsection \<open>Steps 1 and 2 of a prediction call: context and trainer\<close>

definition single_step_context :: "'ts dicl \<Rightarrow> matrix \<Rightarrow> matrix" where
  "single_step_context s win = transform s (slice_to win (- 1))"

definition multi_step_context :: "'ts dicl \<Rightarrow> matrix \<Rightarrow> int \<Rightarrow> matrix" where
  "multi_step_context s win H = transform s (slice_to win (- 1 - H))"

definition single_step_forecast :: "'ts trainer \<Rightarrow> matrix \<Rightarrow> 'ts dicl \<Rightarrow> ICLObject list \<times> 'ts" where
  "single_step_forecast tr win s =
     (let X_transformed = single_step_context s win;
          t1 = update_context tr X_transformed X_transformed (zeros_like X_transformed)
                 (length X_transformed) True (iclearner s);
          t2 = icl tr True None t1
      in compute_statistics tr t2)"

definition multi_step_forecast ::
  "'ts trainer \<Rightarrow> matrix \<Rightarrow> int \<Rightarrow> bool \<Rightarrow> bool \<Rightarrow> 'ts dicl \<Rightarrow> ICLObject list \<times> 'ts" where
  "multi_step_forecast tr win H stochastic if_true_mean_else_mode s =
     (let X_transformed = multi_step_context s win H;
          t1 = update_context tr X_transformed X_transformed (zeros_like X_transformed)
                 (length X_transformed) True (iclearner s);
          t2 = icl tr stochastic (Some if_true_mean_else_mode) t1
      in predict_long_horizon_llm tr H stochastic if_true_mean_else_mode t2)"

subsection \<open>Step 3: inverse rescaling and inverse disentangling\<close>

text \<open>The three arrays the loop body computes for one component, in the order of the
  source: mode, mean, sigma.\<close>

definition rescale_dim :: "real \<Rightarrow> real \<Rightarrow> ICLObject \<Rightarrow> vec \<times> vec \<times> vec" where
  "rescale_dim up rf obj =
     (let ts_max = rescaling_max obj;
          ts_min = rescaling_min obj;
          mode_a = map (\<lambda>x. ((x - up) / rf) * (ts_max - ts_min) + ts_min) (mode_arr obj);
          mean_a = map (\<lambda>x. ((x - up) / rf) * (ts_max - ts_min) + ts_min) (mean_arr obj);
          sigma_a = map (\<lambda>x. (x / rf) * (ts_max - ts_min)) (sigma_arr obj)
      in (mode_a, mean_a, sigma_a))"

text \<open>One pass of \<open>for dim in range(self.n_components)\<close>: the columns appended to
  \<open>all_mean\<close>, \<open>all_mode\<close>, \<open>all_lb\<close> and \<open>all_ub\<close>.\<close>

definition loop_body :: "real \<Rightarrow> real \<Rightarrow> ICLObject list \<Rightarrow> nat \<Rightarrow> error + (vec \<times> vec \<times> vec \<times> vec)" where
  "loop_body up rf objs dimn =
     (if length objs \<le> dimn then Inl IndexError
      else
        (case rescale_dim up rf (objs ! dimn) of
           (mode_a, mean_a, sigma_a) \<Rightarrow>
             (case np_sub1 mean_a sigma_a of
                Inl e \<Rightarrow> Inl e
              | Inr lb_col \<Rightarrow>
                  (case np_add1 mean_a sigma_a of
                     Inl e \<Rightarrow> Inl e
                   | Inr ub_col \<Rightarrow> Inr (mean_a, mode_a, lb_col, ub_col)))))"

type_synonym forecast_bundle = "matrix \<times> matrix \<times> matrix \<times> matrix"

text \<open>The block is the same text in \<open>predict_single_step\<close> and
  \<open>predict_multi_step\<close>; every assignment to an attribute is kept in the order of the
  source, so that a failure leaves the attributes set so far.\<close>

definition reconstruct :: "'ts dicl \<Rightarrow> (error + forecast_bundle) \<times> 'ts dicl" where
  "reconstruct s =
     (case icl_object s of
        None \<Rightarrow> (Inl (AttributeError ''icl_object''), s)
      | Some objs \<Rightarrow>
     (case sequence (map (loop_body (up_shift s) (rescale_factor s) objs) [0..<n_components s]) of
        Inl e \<Rightarrow> (Inl e, s)
      | Inr cols \<Rightarrow>
     (case concatenate_axis1 (map (\<lambda>(m, md, l, u). m) cols) of
        Inl e \<Rightarrow> (Inl e, s)
      | Inr all_mean \<Rightarrow>
     (let s1 = s\<lparr>mean := Some (inverse_transform s all_mean)\<rparr> in
      case concatenate_axis1 (map (\<lambda>(m, md, l, u). md) cols) of
        Inl e \<Rightarrow> (Inl e, s1)
      | Inr all_mode \<Rightarrow>
     (let s2 = s1\<lparr>mode := Some (inverse_transform s1 all_mode)\<rparr> in
      case concatenate_axis1 (map (\<lambda>(m, md, l, u). l) cols) of
        Inl e \<Rightarrow> (Inl e, s2)
      | Inr all_lb \<Rightarrow>
     (let s3 = s2\<lparr>lb := Some (inverse_transform s2 all_lb)\<rparr> in
      case concatenate_axis1 (map (\<lambda>(m, md, l, u). u) cols) of
        Inl e \<Rightarrow> (Inl e, s3)
      | Inr all_ub \<Rightarrow>
     (let s4 = s3\<lparr>ub := Some (inverse_transform s3 all_ub)\<rparr> in
      (Inr (inverse_transform s all_mean, inverse_transform s1 all_mode,
            inverse_transform s2 all_lb, inverse_transform s3 all_ub), s4))))))))"

subsection \<open>The prediction calls\<close>

definition predict_single_step ::
  "'ts trainer \<Rightarrow> matrix \<Rightarrow> 'ts dicl \<Rightarrow> (error + forecast_bundle) \<times> 'ts dicl" where
  "predict_single_step tr win s =
     (if shape1 win \<noteq> n_features s then (Inl AssertionError, s)
      else
        (let s1 = s\<lparr>context_length := Some (length win), X := Some win\<rparr> in
         case single_step_forecast tr win s1 of
           (objs, t) \<Rightarrow> reconstruct (s1\<lparr>iclearner := t, icl_object := Some objs\<rparr>)))"

definition predict_multi_step ::
  "'ts trainer \<Rightarrow> matrix \<Rightarrow> int \<Rightarrow> bool \<Rightarrow> bool \<Rightarrow> 'ts dicl \<Rightarrow> (error + forecast_bundle) \<times> 'ts dicl" where
  "predict_multi_step tr win H stochastic if_true_mean_else_mode s =
     (if shape1 win \<noteq> n_features s then (Inl AssertionError, s)
      else
        (let s1 = s\<lparr>context_length := Some (length win), X := Some win,
                    prediction_horizon := Some H\<rparr> in
         case multi_step_forecast tr win H stochastic if_true_mean_else_mode s1 of
           (objs, t) \<Rightarrow> reconstruct (s1\<lparr>iclearner := t, icl_object := Some objs\<rparr>)))"

subsection \<open>Metrics\<close>

type_synonym metrics = "string \<rightharpoonup> ndarray"

definition compute_metrics ::
  "'q ks_helper \<Rightarrow> int \<Rightarrow> 'ts dicl \<Rightarrow> (error + metrics) \<times> 'ts dicl" where
  "compute_metrics compute_ks_metric burnin s =
     (case X s of
        None \<Rightarrow> (Inl (AttributeError ''X''), s)
      | Some win \<Rightarrow>
     (case mean s of
        None \<Rightarrow> (Inl (AttributeError ''mean''), s)
      | Some mn \<Rightarrow>
     (case np_sub2 (slice_from win 1) mn of
        Inl e \<Rightarrow> (Inl e, s)
      | Inr diff \<Rightarrow>
     (let perdim_squared_errors = map (map (\<lambda>x. x\<^sup>2)) diff;
          agg_squared_error = norm_axis1 diff;
          m1 = Map.empty(''average_agg_squared_error'' \<mapsto> mean1 (slice_from agg_squared_error burnin));
          m2 = m1(''agg_squared_error'' \<mapsto> Array1 agg_squared_error);
          m3 = m2(''average_perdim_squared_error'' \<mapsto> mean_axis0 (slice_from perdim_squared_errors burnin));
          m4 = m3(''perdim_squared_error'' \<mapsto> Array1 agg_squared_error)
      in
      case icl_object s of
        None \<Rightarrow> (Inl (AttributeError ''icl_object''), s)
      | Some objs \<Rightarrow>
          (case compute_ks_metric (slice_from win 1) objs (n_components s) (n_features s)
                  (inverse_transform s) burnin of
             (kss, _) \<Rightarrow>
               (let m5 = m4(''perdim_ks'' \<mapsto> Array1 kss);
                    m6 = m5(''agg_ks'' \<mapsto> mean1 kss)
                in (Inr m6, s)))))))"

subsection \<open>Statements of the specification\<close>

text \<open>"Every \<open>predict_*\<close> call": the two entry points with their arguments, and what the
  trainer hands back in that call.\<close>

datatype prediction_call = Single_step | Multi_step int bool bool

fun predict ::
  "'ts trainer \<Rightarrow> prediction_call \<Rightarrow> matrix \<Rightarrow> 'ts dicl \<Rightarrow> (error + forecast_bundle) \<times> 'ts dicl" where
  "predict tr Single_step win s = predict_single_step tr win s"
| "predict tr (Multi_step H stochastic if_true_mean_else_mode) win s =
     predict_multi_step tr win H stochastic if_true_mean_else_mode s"

fun trainer_output :: "'ts trainer \<Rightarrow> prediction_call \<Rightarrow> matrix \<Rightarrow> 'ts dicl \<Rightarrow> ICLObject list" where
  "trainer_output tr Single_step win s = fst (single_step_forecast tr win s)"
| "trainer_output tr (Multi_step H stochastic if_true_mean_else_mode) win s =
     fst (multi_step_forecast tr win H stochastic if_true_mean_else_mode s)"

text \<open>The formulas of the specification, in its words:
  \<open>raw = (rescaled - up_shift) / rescale_factor * (max - min) + min\<close> and
  \<open>raw_dispersion = rescaled_dispersion / rescale_factor * (max - min)\<close>.\<close>

definition raw_value :: "real \<Rightarrow> real \<Rightarrow> real \<Rightarrow> real \<Rightarrow> real \<Rightarrow> real" where
  "raw_value up rf mn mx rescaled = (rescaled - up) / rf * (mx - mn) + mn"

definition raw_dispersion :: "real \<Rightarrow> real \<Rightarrow> real \<Rightarrow> real \<Rightarrow> real" where
  "raw_dispersion rf mn mx rescaled_dispersion = rescaled_dispersion / rf * (mx - mn)"

definition raw_mean :: "real \<Rightarrow> real \<Rightarrow> ICLObject \<Rightarrow> nat \<Rightarrow> real" where
  "raw_mean up rf obj t =
     raw_value up rf (rescaling_min obj) (rescaling_max obj) (mean_arr obj ! t)"

definition raw_mode :: "real \<Rightarrow> real \<Rightarrow> ICLObject \<Rightarrow> nat \<Rightarrow> real" where
  "raw_mode up rf obj t =
     raw_value up rf (rescaling_min obj) (rescaling_max obj) (mode_arr obj ! t)"

definition raw_sigma :: "real \<Rightarrow> ICLObject \<Rightarrow> nat \<Rightarrow> real" where
  "raw_sigma rf obj t =
     raw_dispersion rf (rescaling_min obj) (rescaling_max obj) (sigma_arr obj ! t)"

text \<open>The array in component space with one row per step and one column per component.\<close>

definition component_matrix ::
  "(ICLObject \<Rightarrow> nat \<Rightarrow> real) \<Rightarrow> ICLObject list \<Rightarrow> nat \<Rightarrow> nat \<Rightarrow> matrix" where
  "component_matrix f objs C L = map (\<lambda>t. map (\<lambda>c. f (objs ! c) t) [0..<C]) [0..<L]"

text \<open>The trainer's side of the interface: at least \<open>C\<close> components (and at least one),
  each with \<open>L\<close> means, modes and dispersions.\<close>

definition well_shaped :: "nat \<Rightarrow> nat \<Rightarrow> ICLObject list \<Rightarrow> bool" where
  "well_shaped C L objs \<longleftrightarrow>
     0 < C \<and> C \<le> length objs \<and>
     list_all (\<lambda>obj. length (mean_arr obj) = L \<and> length (mode_arr obj) = L \<and>
                      length (sigma_arr obj) = L) (take C objs)"

definition has_shape :: "nat \<Rightarrow> nat \<Rightarrow> matrix \<Rightarrow> bool" where
  "has_shape r c M \<longleftrightarrow> length M = r \<and> list_all (\<lambda>row. length row = c) M"

text \<open>The disentangler's side of the interface: \<open>transform\<close> takes an array with
  \<open>F\<close> columns to one with as many rows and \<open>C\<close> columns, \<open>inverse_transform\<close> takes
  it back.\<close>

definition disentangler_maps :: "'ts dicl \<Rightarrow> nat \<Rightarrow> nat \<Rightarrow> bool" where
  "disentangler_maps s F C \<longleftrightarrow>
     (\<forall>M r. has_shape r F M \<longrightarrow> has_shape r C (transform s M)) \<and>
     (\<forall>Z r. has_shape r C Z \<longrightarrow> has_shape r F (inverse_transform s Z))"

text \<open>"The same deterministic trainer behaviour in both calls": per component, the
  first \<open>L\<close> statistics of the longer output are the statistics of the shorter one, under
  the same rescaling minimum and maximum.\<close>

definition agree_on_prefix :: "nat \<Rightarrow> nat \<Rightarrow> ICLObject list \<Rightarrow> ICLObject list \<Rightarrow> bool" where
  "agree_on_prefix C L long short \<longleftrightarrow>
     list_all (\<lambda>c. take L (mean_arr (long ! c)) = mean_arr (short ! c) \<and>
                   take L (mode_arr (long ! c)) = mode_arr (short ! c) \<and>
                   take L (sigma_arr (long ! c)) = sigma_arr (short ! c) \<and>
                   rescaling_min (long ! c) = rescaling_min (short ! c) \<and>
                   rescaling_max (long ! c) = rescaling_max (short ! c)) [0..<C]"

text \<open>Two states of a pipeline with the same constructor arguments and fitted
  disentangler.\<close>

definition same_configuration :: "'ts dicl \<Rightarrow> 'ts dicl \<Rightarrow> bool" where
  "same_configuration s s' \<longleftrightarrow>
     n_features s' = n_features s \<and> n_components s' = n_components s \<and>
     rescale_factor s' = rescale_factor s \<and> up_shift s' = up_shift s \<and>
     inverse_transform s' = inverse_transform s \<and> transform s' = transform s"

text \<open>What the trainer returns for a context \<open>ctx\<close> when it is driven as
  \<open>predict_single_step\<close> drives it (\<open>update_context\<close>, \<open>icl\<close> with
  \<open>stochastic=True\<close>, \<open>compute_statistics\<close>) and as \<open>predict_multi_step\<close> drives
  it (\<open>update_context\<close>, \<open>icl\<close> with the caller's flags,
  \<open>predict_long_horizon_llm\<close>), from the trainer state \<open>ts\<close>.\<close>

definition rolling_statistics :: "'ts trainer \<Rightarrow> matrix \<Rightarrow> 'ts \<Rightarrow> ICLObject list" where
  "rolling_statistics tr ctx ts =
     fst (compute_statistics tr (icl tr True None
       (update_context tr ctx ctx (zeros_like ctx) (length ctx) True ts)))"

definition horizon_statistics ::
  "'ts trainer \<Rightarrow> matrix \<Rightarrow> int \<Rightarrow> bool \<Rightarrow> bool \<Rightarrow> 'ts \<Rightarrow> ICLObject list" where
  "horizon_statistics tr ctx H stochastic if_true_mean_else_mode ts =
     fst (predict_long_horizon_llm tr H stochastic if_true_mean_else_mode
       (icl tr stochastic (Some if_true_mean_else_mode)
         (update_context tr ctx ctx (zeros_like ctx) (length ctx) True ts)))"

text \<open>A trainer whose horizon-one statistics for a context extend its rolling statistics
  for that context, whatever the generation flags: per component \<open>L\<close> rolling statistics,
  \<open>L + 1\<close> horizon-one statistics, the first \<open>L\<close> of them and the rescaling minimum and
  maximum the same.\<close>

definition trainer_extends_rolling ::
  "'ts trainer \<Rightarrow> nat \<Rightarrow> nat \<Rightarrow> matrix \<Rightarrow> 'ts \<Rightarrow> 'ts \<Rightarrow> bool" where
  "trainer_extends_rolling tr C L ctx ts ts' \<longleftrightarrow>
     well_shaped C L (rolling_statistics tr ctx ts') \<and>
     (\<forall>stochastic if_true_mean_else_mode.
        well_shaped C (L + 1) (horizon_statistics tr ctx 1 stochastic if_true_mean_else_mode ts) \<and>
        agree_on_prefix C L (horizon_statistics tr ctx 1 stochastic if_true_mean_else_mode ts)
          (rolling_statistics tr ctx ts'))"

subsection \<open>A stub trainer and a small pipeline\<close>

text \<open>A trainer that records the per-component minimum and maximum of the context it is
  given and predicts, in rescaled units, the middle of the band as mean, its lower end as
  mode and half its width as dispersion, at every step.\<close>

record stub_state =
  stub_rf :: real
  stub_up :: real
  stub_series :: matrix
  stub_min :: vec
  stub_max :: vec

definition column :: "matrix \<Rightarrow> nat \<Rightarrow> vec" where
  "column M j = map (\<lambda>r. r ! j) M"

definition stub_statistics :: "nat \<Rightarrow> stub_state \<Rightarrow> ICLObject list" where
  "stub_statistics L st =
     map (\<lambda>c. \<lparr>mean_arr = replicate L (stub_up st + stub_rf st / 2),
               mode_arr = replicate L (stub_up st),
               sigma_arr = replicate L (stub_rf st / 2),
               rescaling_min = stub_min st ! c,
               rescaling_max = stub_max st ! c\<rparr>) [0..<length (stub_min st)]"

definition stub_trainer :: "stub_state trainer" where
  "stub_trainer =
     \<lparr>MultiVariateICLTrainer = (\<lambda>nc rf up.
         \<lparr>stub_rf = rf, stub_up = up, stub_series = [], stub_min = [], stub_max = []\<rparr>),
      update_context = (\<lambda>ts ms ss n upd st.
         st\<lparr>stub_series := take n ts,
            stub_min := (if upd then map (\<lambda>j. foldr min (column ts j) (hd (column ts j)))
                                     [0..<shape1 ts] else stub_min st),
            stub_max := (if upd then map (\<lambda>j. foldr max (column ts j) (hd (column ts j)))
                                     [0..<shape1 ts] else stub_max st)\<rparr>),
      icl = (\<lambda>stochastic im st. st),
      compute_statistics = (\<lambda>st. (stub_statistics (length (stub_series st)) st, st)),
      predict_long_horizon_llm = (\<lambda>H stochastic im st.
         (stub_statistics (length (stub_series st) + nat H) st, st))\<rparr>"

text \<open>Scalers fitted on data they leave as it is (minimum 0 and maximum 1, mean 0 and
  deviation 1).\<close>

definition unit_scaler :: stage where
  "unit_scaler = \<lparr>stage_transform = (\<lambda>M. M), stage_inverse_transform = (\<lambda>M. M)\<rparr>"

definition example_pipeline :: "stub_state dicl" where
  "example_pipeline = vICL_init stub_trainer unit_scaler unit_scaler 2 7 (3 / 2)"

definition example_window :: matrix where
  "example_window = [[1, 0], [1, 2], [1, 4], [1, 6]]"

definition stub_ks :: "unit ks_helper" where
  "stub_ks groundtruth objs nc nf back burnin = (replicate nf (1 / 4), ())"

text \<open>A standardization stage fitted on data of mean 1 and deviation 1, and the identity
  variant built on it.\<close>

definition shift_scaler :: stage where
  "shift_scaler =
     \<lparr>stage_transform = map (map (\<lambda>x. x - 1)), stage_inverse_transform = map (map (\<lambda>x. x + 1))\<rparr>"

definition shifted_pipeline :: "stub_state dicl" where
  "shifted_pipeline = vICL_init stub_trainer unit_scaler shift_scaler 2 7 (3 / 2)"

text \<open>The example pipeline after \<open>predict_single_step\<close> on the example window.\<close>

definition example_predicted :: "stub_state dicl" where
  "example_predicted = snd (predict_single_step stub_trainer example_window example_pipeline)"

text \<open>A deterministic trainer that honours the \<open>stochastic\<close> flag: with the flag it
  returns the stub's statistics, without it a point prediction (mean equal to the mode,
  no dispersion).\<close>

definition deterministic_statistics :: "nat \<Rightarrow> stub_state \<Rightarrow> ICLObject list" where
  "deterministic_statistics L st =
     map (\<lambda>obj. obj\<lparr>mean_arr := mode_arr obj, sigma_arr := replicate L 0\<rparr>)
       (stub_statistics L st)"

definition flag_trainer :: "(bool \<times> stub_state) trainer" where
  "flag_trainer =
     \<lparr>MultiVariateICLTrainer = (\<lambda>nc rf up. (False, MultiVariateICLTrainer stub_trainer nc rf up)),
      update_context = (\<lambda>ts ms ss n upd (b, st).
         (b, update_context stub_trainer ts ms ss n upd st)),
      icl = (\<lambda>stochastic im (b, st). (stochastic, st)),
      compute_statistics = (\<lambda>(b, st).
         (if b then stub_statistics (length (stub_series st)) st
          else deterministic_statistics (length (stub_series st)) st, (b, st))),
      predict_long_horizon_llm = (\<lambda>H stochastic im (b, st).
         (if stochastic then stub_statistics (length (stub_series st) + nat H) st
          else deterministic_statistics (length (stub_series st) + nat H) st, (b, st)))\<rparr>"

definition flag_pipeline :: "(bool \<times> stub_state) dicl" where
  "flag_pipeline = vICL_init flag_trainer unit_scaler unit_scaler 2 7 (3 / 2)"

subsection \<open>The two scalers in float64\<close>

text \<open>
  Rounding to the nearest binary64 number, ties to even, for numbers in the normal range
  (no overflow, no subnormals): \<open>round_to e\<close> rounds to a multiple of \<open>2 powi e\<close>, and
  the 53-bit significand of \<open>x\<close> puts its last bit at
  \<open>\<lfloor>log 2 \<bar>x\<bar>\<rfloor> - 52\<close>.
\<close>

definition round_to :: "int \<Rightarrow> real \<Rightarrow> real" where
  "round_to e x =
     (let q = x / 2 powi e; f = \<lfloor>q\<rfloor>; r = q - of_int f
      in (if r < 1 / 2 then of_int f
          else if 1 / 2 < r then of_int f + 1
          else if even f then of_int f else of_int f + 1) * 2 powi e)"

definition fl :: "real \<Rightarrow> real" where
  "fl x = (if x = 0 then 0 else round_to (\<lfloor>log 2 \<bar>x\<bar>\<rfloor> - 52) x)"

text \<open>
  The arithmetic of scikit-learn's fitted scalers, which is not part of the sources, one
  rounding after every operation: \<open>MinMaxScaler\<close> transforms by
  \<open>X * scale_ + min_\<close> and inverts by \<open>(X - min_) / scale_\<close>; \<open>StandardScaler\<close>
  transforms by \<open>(X - mean_) / scale_\<close> and inverts by \<open>X * scale_ + mean_\<close>. The
  parameters are per feature. \<open>IdentityTransformer\<close>'s multiplication by one is exact in
  float64 as it is over the reals.
\<close>

definition float64_MinMaxScaler :: "vec \<Rightarrow> vec \<Rightarrow> stage" where
  "float64_MinMaxScaler scale mn =
     \<lparr>stage_transform =
        map (\<lambda>row. map2 (\<lambda>x m. fl (x + m)) (map2 (\<lambda>x c. fl (x * c)) row scale) mn),
      stage_inverse_transform =
        map (\<lambda>row. map2 (\<lambda>x c. fl (x / c)) (map2 (\<lambda>x m. fl (x - m)) row mn) scale)\<rparr>"

definition float64_StandardScaler :: "vec \<Rightarrow> vec \<Rightarrow> stage" where
  "float64_StandardScaler mu scale =
     \<lparr>stage_transform =
        map (\<lambda>row. map2 (\<lambda>x c. fl (x / c)) (map2 (\<lambda>x m. fl (x - m)) row mu) scale),
      stage_inverse_transform =
        map (\<lambda>row. map2 (\<lambda>x m. fl (x + m)) (map2 (\<lambda>x c. fl (x * c)) row scale) mu)\<rparr>"

text \<open>The identity variant with one feature, its scalers fitted on the two observations
  0 and 1: \<open>scale_ = 1\<close> and \<open>min_ = 0\<close>, then \<open>mean_ = 1/2\<close> and
  \<open>scale_ = 1/2\<close>.\<close>

definition float64_pipeline :: "stub_state dicl" where
  "float64_pipeline =
     vICL_init stub_trainer (float64_MinMaxScaler [1] [0]) (float64_StandardScaler [1 / 2] [1 / 2])
       1 7 (3 / 2)"

section \<open>Properties\<close>

subsection \<open>Well-shaped trainer output: what a prediction call computes\<close>

lemma sequence_map_Inr:
  "(\<And>x. x \<in> set xs \<Longrightarrow> f x = Inr (g x)) \<Longrightarrow> sequence (map f xs) = Inr (map g xs)"
  by (induction xs) auto

lemma broadcast_same_length:
  assumes "length xs = length ys"
  shows "broadcast (\<lambda>x y. Inr (f x y)) xs ys = Inr (map2 f xs ys)"
proof -
  have "sequence (map2 (\<lambda>x y. Inr (f x y)) xs ys) = Inr (map2 f xs ys)"
    by (rule sequence_map_Inr) auto
  with assms show ?thesis by (simp add: broadcast_def)
qed

lemma np_sub1_same_length: "length xs = length ys \<Longrightarrow> np_sub1 xs ys = Inr (map2 (-) xs ys)"
  unfolding np_sub1_def by (rule broadcast_same_length)

lemma np_add1_same_length: "length xs = length ys \<Longrightarrow> np_add1 xs ys = Inr (map2 (+) xs ys)"
  unfolding np_add1_def by (rule broadcast_same_length)

lemma concatenate_axis1_columns:
  assumes "cols \<noteq> []" and "\<And>c. c \<in> set cols \<Longrightarrow> length c = L"
  shows "concatenate_axis1 cols = Inr (map (\<lambda>t. map (\<lambda>col. col ! t) cols) [0..<L])"
  using assms by (cases cols) (auto simp: concatenate_axis1_def list_all_iff)

lemma concatenate_axis1_range:
  assumes "0 < C" and "\<And>c. c < C \<Longrightarrow> length (col c) = L"
  shows "concatenate_axis1 (map col [0..<C]) = Inr (map (\<lambda>t. map (\<lambda>c. col c ! t) [0..<C]) [0..<L])"
proof -
  have "concatenate_axis1 (map col [0..<C]) =
      Inr (map (\<lambda>t. map (\<lambda>cl. cl ! t) (map col [0..<C])) [0..<L])"
    using assms by (intro concatenate_axis1_columns) auto
  then show ?thesis by (simp add: comp_def)
qed

lemma well_shapedD:
  assumes "well_shaped C L objs" and "c < C"
  shows "c < length objs" and "length (mean_arr (objs ! c)) = L"
    and "length (mode_arr (objs ! c)) = L" and "length (sigma_arr (objs ! c)) = L"
proof -
  from assms show c: "c < length objs" by (simp add: well_shaped_def)
  from assms c have "objs ! c \<in> set (take C objs)"
    by (metis in_set_conv_nth length_take min_less_iff_conj nth_take)
  with assms show "length (mean_arr (objs ! c)) = L"
    and "length (mode_arr (objs ! c)) = L" and "length (sigma_arr (objs ! c)) = L"
    by (auto simp: well_shaped_def list_all_iff)
qed

lemma loop_body_well_shaped:
  assumes "well_shaped C L objs" and "c < C"
  shows "loop_body up rf objs c =
    Inr (fst (snd (rescale_dim up rf (objs ! c))), fst (rescale_dim up rf (objs ! c)),
         map2 (-) (fst (snd (rescale_dim up rf (objs ! c)))) (snd (snd (rescale_dim up rf (objs ! c)))),
         map2 (+) (fst (snd (rescale_dim up rf (objs ! c)))) (snd (snd (rescale_dim up rf (objs ! c)))))"
  using well_shapedD[OF assms]
  by (simp add: loop_body_def rescale_dim_def Let_def np_sub1_same_length np_add1_same_length)

lemma reconstruct_well_shaped:
  assumes objs: "icl_object s = Some objs"
    and ws: "well_shaped (n_components s) L objs"
  defines "back \<equiv> pipeline_inverse_transform (disentangler s)"
  defines "Mm \<equiv> component_matrix (raw_mean (up_shift s) (rescale_factor s)) objs (n_components s) L"
  defines "Mo \<equiv> component_matrix (raw_mode (up_shift s) (rescale_factor s)) objs (n_components s) L"
  defines "Ml \<equiv> component_matrix (\<lambda>obj t. raw_mean (up_shift s) (rescale_factor s) obj t -
      raw_sigma (rescale_factor s) obj t) objs (n_components s) L"
  defines "Mu \<equiv> component_matrix (\<lambda>obj t. raw_mean (up_shift s) (rescale_factor s) obj t +
      raw_sigma (rescale_factor s) obj t) objs (n_components s) L"
  shows "reconstruct s =
    (Inr (back Mm, back Mo, back Ml, back Mu),
     s\<lparr>mean := Some (back Mm), mode := Some (back Mo), lb := Some (back Ml), ub := Some (back Mu)\<rparr>)"
proof -
  let ?C = "n_components s"
  let ?up = "up_shift s" and ?rf = "rescale_factor s"
  let ?g = "\<lambda>c. (fst (snd (rescale_dim ?up ?rf (objs ! c))), fst (rescale_dim ?up ?rf (objs ! c)),
         map2 (-) (fst (snd (rescale_dim ?up ?rf (objs ! c)))) (snd (snd (rescale_dim ?up ?rf (objs ! c)))),
         map2 (+) (fst (snd (rescale_dim ?up ?rf (objs ! c)))) (snd (snd (rescale_dim ?up ?rf (objs ! c)))))"
  have pos: "0 < ?C" using ws by (simp add: well_shaped_def)
  have seq: "sequence (map (loop_body ?up ?rf objs) [0..<?C]) = Inr (map ?g [0..<?C])"
    by (rule sequence_map_Inr) (simp add: loop_body_well_shaped[OF ws])
  have len: "\<And>c. c < ?C \<Longrightarrow> length (mean_arr (objs ! c)) = L \<and> length (mode_arr (objs ! c)) = L
      \<and> length (sigma_arr (objs ! c)) = L"
    using well_shapedD[OF ws] by simp
  have cm: "concatenate_axis1 (map (\<lambda>(m, md, l, u). m) (map ?g [0..<?C])) = Inr Mm"
  proof -
    have "concatenate_axis1 (map (\<lambda>c. fst (snd (rescale_dim ?up ?rf (objs ! c)))) [0..<?C]) =
      Inr (map (\<lambda>t. map (\<lambda>c. fst (snd (rescale_dim ?up ?rf (objs ! c))) ! t) [0..<?C]) [0..<L])"
      using pos len by (intro concatenate_axis1_range) (simp_all add: rescale_dim_def Let_def)
    also have "map (\<lambda>t. map (\<lambda>c. fst (snd (rescale_dim ?up ?rf (objs ! c))) ! t) [0..<?C]) [0..<L] = Mm"
      using len by (simp add: Mm_def component_matrix_def rescale_dim_def Let_def raw_mean_def raw_value_def)
    finally show ?thesis by (simp add: comp_def)
  qed
  have co: "concatenate_axis1 (map (\<lambda>(m, md, l, u). md) (map ?g [0..<?C])) = Inr Mo"
  proof -
    have "concatenate_axis1 (map (\<lambda>c. fst (rescale_dim ?up ?rf (objs ! c))) [0..<?C]) =
      Inr (map (\<lambda>t. map (\<lambda>c. fst (rescale_dim ?up ?rf (objs ! c)) ! t) [0..<?C]) [0..<L])"
      using pos len by (intro concatenate_axis1_range) (simp_all add: rescale_dim_def Let_def)
    also have "map (\<lambda>t. map (\<lambda>c. fst (rescale_dim ?up ?rf (objs ! c)) ! t) [0..<?C]) [0..<L] = Mo"
      using len by (simp add: Mo_def component_matrix_def rescale_dim_def Let_def raw_mode_def raw_value_def)
    finally show ?thesis by (simp add: comp_def)
  qed
  have cl: "concatenate_axis1 (map (\<lambda>(m, md, l, u). l) (map ?g [0..<?C])) = Inr Ml"
  proof -
    let ?col = "\<lambda>c. map2 (-) (fst (snd (rescale_dim ?up ?rf (objs ! c)))) (snd (snd (rescale_dim ?up ?rf (objs ! c))))"
    have "concatenate_axis1 (map ?col [0..<?C]) =
      Inr (map (\<lambda>t. map (\<lambda>c. ?col c ! t) [0..<?C]) [0..<L])"
      using pos len by (intro concatenate_axis1_range) (simp_all add: rescale_dim_def Let_def)
    also have "map (\<lambda>t. map (\<lambda>c. ?col c ! t) [0..<?C]) [0..<L] = Ml"
      using len by (simp add: Ml_def component_matrix_def rescale_dim_def Let_def raw_mean_def
          raw_sigma_def raw_value_def raw_dispersion_def)
    finally show ?thesis by (simp add: comp_def)
  qed
  have cu: "concatenate_axis1 (map (\<lambda>(m, md, l, u). u) (map ?g [0..<?C])) = Inr Mu"
  proof -
    let ?col = "\<lambda>c. map2 (+) (fst (snd (rescale_dim ?up ?rf (objs ! c)))) (snd (snd (rescale_dim ?up ?rf (objs ! c))))"
    have "concatenate_axis1 (map ?col [0..<?C]) =
      Inr (map (\<lambda>t. map (\<lambda>c. ?col c ! t) [0..<?C]) [0..<L])"
      using pos len by (intro concatenate_axis1_range) (simp_all add: rescale_dim_def Let_def)
    also have "map (\<lambda>t. map (\<lambda>c. ?col c ! t) [0..<?C]) [0..<L] = Mu"
      using len by (simp add: Mu_def component_matrix_def rescale_dim_def Let_def raw_mean_def
          raw_sigma_def raw_value_def raw_dispersion_def)
    finally show ?thesis by (simp add: comp_def)
  qed
  show ?thesis
    unfolding reconstruct_def
    by (simp only: objs option.case seq sum.case cm co cl cu Let_def)
      (simp add: inverse_transform_def back_def)
qed

lemma forecast_ignores_attributes:
  "single_step_forecast tr win (s\<lparr>context_length := a, X := b\<rparr>) = single_step_forecast tr win s"
  "multi_step_forecast tr win H st im (s\<lparr>context_length := a, X := b, prediction_horizon := h\<rparr>) =
     multi_step_forecast tr win H st im s"
  by (simp_all add: single_step_forecast_def multi_step_forecast_def single_step_context_def
      multi_step_context_def transform_def)

lemma predict_single_step_unfold:
  assumes "shape1 win = n_features s"
  shows "predict_single_step tr win s =
    reconstruct (s\<lparr>context_length := Some (length win), X := Some win,
      iclearner := snd (single_step_forecast tr win s),
      icl_object := Some (fst (single_step_forecast tr win s))\<rparr>)"
  using assms
  by (simp add: predict_single_step_def forecast_ignores_attributes split: prod.splits)

lemma predict_multi_step_unfold:
  assumes "shape1 win = n_features s"
  shows "predict_multi_step tr win H st im s =
    reconstruct (s\<lparr>context_length := Some (length win), X := Some win,
      prediction_horizon := Some H,
      iclearner := snd (multi_step_forecast tr win H st im s),
      icl_object := Some (fst (multi_step_forecast tr win H st im s))\<rparr>)"
  using assms
  by (simp add: predict_multi_step_def forecast_ignores_attributes split: prod.splits)

lemma predict_single_step_well_shaped:
  assumes shape: "shape1 win = n_features s"
    and ws: "well_shaped (n_components s) L (fst (single_step_forecast tr win s))"
  defines "objs \<equiv> fst (single_step_forecast tr win s)"
  defines "Mm \<equiv> component_matrix (raw_mean (up_shift s) (rescale_factor s)) objs (n_components s) L"
  defines "Mo \<equiv> component_matrix (raw_mode (up_shift s) (rescale_factor s)) objs (n_components s) L"
  defines "Ml \<equiv> component_matrix (\<lambda>obj t. raw_mean (up_shift s) (rescale_factor s) obj t -
      raw_sigma (rescale_factor s) obj t) objs (n_components s) L"
  defines "Mu \<equiv> component_matrix (\<lambda>obj t. raw_mean (up_shift s) (rescale_factor s) obj t +
      raw_sigma (rescale_factor s) obj t) objs (n_components s) L"
  shows "predict_single_step tr win s =
    (Inr (inverse_transform s Mm, inverse_transform s Mo, inverse_transform s Ml,
          inverse_transform s Mu),
     s\<lparr>context_length := Some (length win), X := Some win,
       iclearner := snd (single_step_forecast tr win s), icl_object := Some objs,
       mean := Some (inverse_transform s Mm), mode := Some (inverse_transform s Mo),
       lb := Some (inverse_transform s Ml), ub := Some (inverse_transform s Mu)\<rparr>)"
proof -
  let ?s2 = "s\<lparr>context_length := Some (length win), X := Some win,
      iclearner := snd (single_step_forecast tr win s), icl_object := Some objs\<rparr>"
  have "icl_object ?s2 = Some objs" and "well_shaped (n_components ?s2) L objs"
    using ws by (simp_all add: objs_def)
  from reconstruct_well_shaped[OF this] show ?thesis
    by (simp add: predict_single_step_unfold[OF shape] objs_def Mm_def Mo_def Ml_def Mu_def
        inverse_transform_def)
qed

lemma predict_multi_step_well_shaped:
  assumes shape: "shape1 win = n_features s"
    and ws: "well_shaped (n_components s) L (fst (multi_step_forecast tr win H st im s))"
  defines "objs \<equiv> fst (multi_step_forecast tr win H st im s)"
  defines "Mm \<equiv> component_matrix (raw_mean (up_shift s) (rescale_factor s)) objs (n_components s) L"
  defines "Mo \<equiv> component_matrix (raw_mode (up_shift s) (rescale_factor s)) objs (n_components s) L"
  defines "Ml \<equiv> component_matrix (\<lambda>obj t. raw_mean (up_shift s) (rescale_factor s) obj t -
      raw_sigma (rescale_factor s) obj t) objs (n_components s) L"
  defines "Mu \<equiv> component_matrix (\<lambda>obj t. raw_mean (up_shift s) (rescale_factor s) obj t +
      raw_sigma (rescale_factor s) obj t) objs (n_components s) L"
  shows "predict_multi_step tr win H st im s =
    (Inr (inverse_transform s Mm, inverse_transform s Mo, inverse_transform s Ml,
          inverse_transform s Mu),
     s\<lparr>context_length := Some (length win), X := Some win, prediction_horizon := Some H,
       iclearner := snd (multi_step_forecast tr win H st im s), icl_object := Some objs,
       mean := Some (inverse_transform s Mm), mode := Some (inverse_transform s Mo),
       lb := Some (inverse_transform s Ml), ub := Some (inverse_transform s Mu)\<rparr>)"
proof -
  let ?s2 = "s\<lparr>context_length := Some (length win), X := Some win, prediction_horizon := Some H,
      iclearner := snd (multi_step_forecast tr win H st im s), icl_object := Some objs\<rparr>"
  have "icl_object ?s2 = Some objs" and "well_shaped (n_components ?s2) L objs"
    using ws by (simp_all add: objs_def)
  from reconstruct_well_shaped[OF this] show ?thesis
    by (simp add: predict_multi_step_unfold[OF shape] objs_def Mm_def Mo_def Ml_def Mu_def
        inverse_transform_def)
qed

lemma predict_well_shaped:
  assumes shape: "shape1 win = n_features s"
    and ws: "well_shaped (n_components s) L (trainer_output tr call win s)"
  defines "objs \<equiv> trainer_output tr call win s"
  defines "Mm \<equiv> component_matrix (raw_mean (up_shift s) (rescale_factor s)) objs (n_components s) L"
  defines "Mo \<equiv> component_matrix (raw_mode (up_shift s) (rescale_factor s)) objs (n_components s) L"
  defines "Ml \<equiv> component_matrix (\<lambda>obj t. raw_mean (up_shift s) (rescale_factor s) obj t -
      raw_sigma (rescale_factor s) obj t) objs (n_components s) L"
  defines "Mu \<equiv> component_matrix (\<lambda>obj t. raw_mean (up_shift s) (rescale_factor s) obj t +
      raw_sigma (rescale_factor s) obj t) objs (n_components s) L"
  shows "fst (predict tr call win s) =
      Inr (inverse_transform s Mm, inverse_transform s Mo, inverse_transform s Ml, inverse_transform s Mu)"
    and "mean (snd (predict tr call win s)) = Some (inverse_transform s Mm)"
    and "mode (snd (predict tr call win s)) = Some (inverse_transform s Mo)"
    and "lb (snd (predict tr call win s)) = Some (inverse_transform s Ml)"
    and "ub (snd (predict tr call win s)) = Some (inverse_transform s Mu)"
    and "X (snd (predict tr call win s)) = Some win"
    and "context_length (snd (predict tr call win s)) = Some (length win)"
    and "icl_object (snd (predict tr call win s)) = Some objs"
proof -
  have "fst (predict tr call win s) =
      Inr (inverse_transform s Mm, inverse_transform s Mo, inverse_transform s Ml, inverse_transform s Mu)
    \<and> mean (snd (predict tr call win s)) = Some (inverse_transform s Mm)
    \<and> mode (snd (predict tr call win s)) = Some (inverse_transform s Mo)
    \<and> lb (snd (predict tr call win s)) = Some (inverse_transform s Ml)
    \<and> ub (snd (predict tr call win s)) = Some (inverse_transform s Mu)
    \<and> X (snd (predict tr call win s)) = Some win
    \<and> context_length (snd (predict tr call win s)) = Some (length win)
    \<and> icl_object (snd (predict tr call win s)) = Some objs"
  proof (cases call)
    case Single_step
    with ws have "well_shaped (n_components s) L (fst (single_step_forecast tr win s))" by simp
    from predict_single_step_well_shaped[OF shape this] Single_step show ?thesis
      by (simp add: objs_def Mm_def Mo_def Ml_def Mu_def)
  next
    case (Multi_step H st im)
    with ws have "well_shaped (n_components s) L (fst (multi_step_forecast tr win H st im s))"
      by simp
    from predict_multi_step_well_shaped[OF shape this] Multi_step show ?thesis
      by (simp add: objs_def Mm_def Mo_def Ml_def Mu_def)
  qed
  then show "fst (predict tr call win s) =
      Inr (inverse_transform s Mm, inverse_transform s Mo, inverse_transform s Ml, inverse_transform s Mu)"
    and "mean (snd (predict tr call win s)) = Some (inverse_transform s Mm)"
    and "mode (snd (predict tr call win s)) = Some (inverse_transform s Mo)"
    and "lb (snd (predict tr call win s)) = Some (inverse_transform s Ml)"
    and "ub (snd (predict tr call win s)) = Some (inverse_transform s Mu)"
    and "X (snd (predict tr call win s)) = Some win"
    and "context_length (snd (predict tr call win s)) = Some (length win)"
    and "icl_object (snd (predict tr call win s)) = Some objs"
    by simp_all
qed

lemma map2_map_same: "map2 f (map g xs) (map h xs) = map (\<lambda>x. f (g x) (h x)) xs"
  by (induction xs) simp_all

lemma component_matrix_map2:
  "map2 (map2 f) (component_matrix g objs C L) (component_matrix h objs C L) =
     component_matrix (\<lambda>obj t. f (g obj t) (h obj t)) objs C L"
  by (simp add: component_matrix_def map2_map_same)

lemma component_matrix_nth:
  "t < L \<Longrightarrow> c < C \<Longrightarrow> component_matrix f objs C L ! t ! c = f (objs ! c) t"
  by (simp add: component_matrix_def)

lemma component_matrix_shape: "has_shape L C (component_matrix f objs C L)"
  by (simp add: has_shape_def component_matrix_def list_all_iff)

lemma has_shape_take: "has_shape T F M \<Longrightarrow> n \<le> T \<Longrightarrow> has_shape n F (take n M)"
  by (auto simp: has_shape_def list_all_iff dest: in_set_takeD)

lemma has_shape_shape1: "has_shape T F M \<Longrightarrow> 0 < T \<Longrightarrow> shape1 M = F"
  by (cases M) (auto simp: has_shape_def shape1_def)

lemma component_matrix_cong:
  assumes "\<And>t c. t < L \<Longrightarrow> c < C \<Longrightarrow> f (objs ! c) t = g (objs' ! c) t"
  shows "component_matrix f objs C L = component_matrix g objs' C L"
  using assms by (simp add: component_matrix_def)

lemma take_component_matrix:
  "n \<le> L \<Longrightarrow> take n (component_matrix f objs C L) = component_matrix f objs C n"
  by (simp add: component_matrix_def take_map take_upt)

lemma shape1_take: "0 < n \<Longrightarrow> shape1 (take n M) = shape1 M"
  by (cases M; cases n) (simp_all add: shape1_def)

lemma agree_on_prefixD:
  assumes "agree_on_prefix C L long short" and "c < C" and "t < L"
  shows "mean_arr (long ! c) ! t = mean_arr (short ! c) ! t"
    and "mode_arr (long ! c) ! t = mode_arr (short ! c) ! t"
    and "sigma_arr (long ! c) ! t = sigma_arr (short ! c) ! t"
    and "rescaling_min (long ! c) = rescaling_min (short ! c)"
    and "rescaling_max (long ! c) = rescaling_max (short ! c)"
proof -
  from assms(1,2) have *: "take L (mean_arr (long ! c)) = mean_arr (short ! c)"
    "take L (mode_arr (long ! c)) = mode_arr (short ! c)"
    "take L (sigma_arr (long ! c)) = sigma_arr (short ! c)"
    and **: "rescaling_min (long ! c) = rescaling_min (short ! c)"
      "rescaling_max (long ! c) = rescaling_max (short ! c)"
    by (simp_all add: agree_on_prefix_def list_all_iff)
  from ** show "rescaling_min (long ! c) = rescaling_min (short ! c)"
    and "rescaling_max (long ! c) = rescaling_max (short ! c)" .
  from *(1) assms(3) show "mean_arr (long ! c) ! t = mean_arr (short ! c) ! t"
    by (metis nth_take)
  from *(2) assms(3) show "mode_arr (long ! c) ! t = mode_arr (short ! c) ! t"
    by (metis nth_take)
  from *(3) assms(3) show "sigma_arr (long ! c) ! t = sigma_arr (short ! c) ! t"
    by (metis nth_take)
qed

lemma sum_list_drop_nth:
  fixes xs :: "real list"
  shows "sum_list (drop n xs) = (\<Sum>t = n..<length xs. xs ! t)"
proof (cases "n \<le> length xs")
  case True
  have "sum_list (drop n xs) = (\<Sum>i = 0..<length xs - n. xs ! (n + i))"
    using True by (simp add: sum_list_sum_nth)
  also have "\<dots> = (\<Sum>t = n..<length xs. xs ! t)"
    using True sum.shift_bounds_nat_ivl[of "\<lambda>t. xs ! t" 0 n "length xs - n"]
    by (simp add: add.commute)
  finally show ?thesis .
next
  case False
  then show ?thesis by simp
qed

lemma compute_metrics_success:
  assumes "fst (compute_metrics ks b s) = Inr m"
  shows "\<exists>win mn diff objs.
    X s = Some win \<and> mean s = Some mn \<and> np_sub2 (slice_from win 1) mn = Inr diff \<and>
    icl_object s = Some objs \<and>
    m = (Map.empty(''average_agg_squared_error'' \<mapsto> mean1 (slice_from (norm_axis1 diff) b),
          ''agg_squared_error'' \<mapsto> Array1 (norm_axis1 diff),
          ''average_perdim_squared_error'' \<mapsto>
             mean_axis0 (slice_from (map (map (\<lambda>x. x\<^sup>2)) diff) b),
          ''perdim_squared_error'' \<mapsto> Array1 (norm_axis1 diff),
          ''perdim_ks'' \<mapsto> Array1 (fst (ks (slice_from win 1) objs (n_components s)
             (n_features s) (inverse_transform s) b)),
          ''agg_ks'' \<mapsto> mean1 (fst (ks (slice_from win 1) objs (n_components s)
             (n_features s) (inverse_transform s) b))))"
  using assms
  by (auto simp: compute_metrics_def Let_def split: option.splits sum.splits prod.splits)

lemma trainer_output_statistics:
  "trainer_output tr Single_step win s =
     rolling_statistics tr (single_step_context s win) (iclearner s)"
  "trainer_output tr (Multi_step H stochastic if_true_mean_else_mode) win s =
     horizon_statistics tr (multi_step_context s win H) H stochastic if_true_mean_else_mode
       (iclearner s)"
  by (simp_all add: single_step_forecast_def multi_step_forecast_def rolling_statistics_def
      horizon_statistics_def Let_def)

lemma horizon_one_contexts:
  assumes T: "3 \<le> length win" and tf: "transform s' = transform s"
  shows "multi_step_context s win 1 = transform s (take (length win - 2) win)"
    and "single_step_context s' (slice_to win (int (length win) - 1)) =
         transform s (take (length win - 2) win)"
proof -
  have "nat (int (length win) + (- 1 - 1)) = length win - 2" using T by linarith
  then show "multi_step_context s win 1 = transform s (take (length win - 2) win)"
    using T by (simp add: multi_step_context_def slice_to_def)
  have win': "slice_to win (int (length win) - 1) = take (length win - 1) win"
    using T by (simp add: slice_to_def nat_diff_distrib')
  have "slice_to (take (length win - 1) win) (- 1) = take (length win - 2) win"
  proof -
    have "nat (int (length win - 1) - 1) = length win - 2" using T by linarith
    moreover have "min (length win - 2) (length win - 1) = length win - 2" by linarith
    ultimately show ?thesis using T by (simp add: slice_to_def min_absorb1)
  qed
  then show "single_step_context s' (slice_to win (int (length win) - 1)) =
         transform s (take (length win - 2) win)"
    by (simp add: single_step_context_def win' tf)
qed

subsection \<open>The stub pipeline, evaluated\<close>

lemmas example_defs = example_window_def example_pipeline_def vICL_init_def DICL_init_def
  stub_trainer_def unit_scaler_def IdentityTransformer_def make_pipeline_def
  single_step_forecast_def multi_step_forecast_def single_step_context_def
  multi_step_context_def transform_def pipeline_transform_def slice_to_def zeros_like_def
  shape1_def column_def stub_statistics_def

lemma example_single_forecast:
  "fst (single_step_forecast stub_trainer example_window example_pipeline) =
     [\<lparr>mean_arr = [5, 5, 5], mode_arr = [3/2, 3/2, 3/2], sigma_arr = [7/2, 7/2, 7/2],
        rescaling_min = 1, rescaling_max = 1\<rparr>,
      \<lparr>mean_arr = [5, 5, 5], mode_arr = [3/2, 3/2, 3/2], sigma_arr = [7/2, 7/2, 7/2],
        rescaling_min = 0, rescaling_max = 4\<rparr>]"
  by (simp add: example_defs eval_nat_numeral)

lemma example_multi_forecast:
  "fst (multi_step_forecast stub_trainer example_window 1 False False example_pipeline) =
     [\<lparr>mean_arr = [5, 5, 5], mode_arr = [3/2, 3/2, 3/2], sigma_arr = [7/2, 7/2, 7/2],
        rescaling_min = 1, rescaling_max = 1\<rparr>,
      \<lparr>mean_arr = [5, 5, 5], mode_arr = [3/2, 3/2, 3/2], sigma_arr = [7/2, 7/2, 7/2],
        rescaling_min = 0, rescaling_max = 2\<rparr>]"
  by (simp add: example_defs eval_nat_numeral)

lemma example_config:
  "n_features example_pipeline = 2" "n_components example_pipeline = 2"
  "rescale_factor example_pipeline = 7" "up_shift example_pipeline = 3 / 2"
  "shape1 example_window = 2" "length example_window = 4"
  by (simp_all add: example_pipeline_def vICL_init_def DICL_init_def example_window_def shape1_def)

lemma example_inverse_transform: "inverse_transform example_pipeline Z = Z"
  by (simp add: inverse_transform_def pipeline_inverse_transform_def example_pipeline_def
      vICL_init_def DICL_init_def make_pipeline_def unit_scaler_def IdentityTransformer_def)

lemma example_single_well_shaped:
  "well_shaped 2 3 (fst (single_step_forecast stub_trainer example_window example_pipeline))"
  by (simp add: example_single_forecast well_shaped_def)

lemma example_multi_well_shaped:
  "well_shaped 2 3 (fst (multi_step_forecast stub_trainer example_window 1 False False example_pipeline))"
  by (simp add: example_multi_forecast well_shaped_def)

lemma example_transform: "transform example_pipeline M = M"
  by (simp add: transform_def pipeline_transform_def example_pipeline_def
      vICL_init_def DICL_init_def make_pipeline_def unit_scaler_def IdentityTransformer_def)

lemma example_disentangler_maps: "disentangler_maps example_pipeline 2 2"
  by (simp add: disentangler_maps_def example_inverse_transform example_transform)

lemma example_contexts:
  "single_step_context example_pipeline example_window = [[1, 0], [1, 2], [1, 4]]"
  "multi_step_context example_pipeline example_window 1 = [[1, 0], [1, 2]]"
  by (simp_all add: example_defs)

lemma example_truncated_window:
  "slice_to example_window (int (length example_window) - 1) = [[1, 0], [1, 2], [1, 4]]"
  by (simp add: example_window_def slice_to_def)

lemma example_truncated_forecast:
  "fst (single_step_forecast stub_trainer [[1, 0], [1, 2], [1, 4]] example_pipeline) =
     [\<lparr>mean_arr = [5, 5], mode_arr = [3/2, 3/2], sigma_arr = [7/2, 7/2],
        rescaling_min = 1, rescaling_max = 1\<rparr>,
      \<lparr>mean_arr = [5, 5], mode_arr = [3/2, 3/2], sigma_arr = [7/2, 7/2],
        rescaling_min = 0, rescaling_max = 2\<rparr>]"
  by (simp add: example_defs eval_nat_numeral)

lemma shifted_config:
  "n_features shifted_pipeline = 2" "n_components shifted_pipeline = 2"
  "rescale_factor shifted_pipeline = 7" "up_shift shifted_pipeline = 3 / 2"
  by (simp_all add: shifted_pipeline_def vICL_init_def DICL_init_def)

lemma shifted_inverse_transform:
  "inverse_transform shifted_pipeline Z = map (map (\<lambda>x. x + 1)) Z"
  by (simp add: inverse_transform_def pipeline_inverse_transform_def shifted_pipeline_def
      vICL_init_def DICL_init_def make_pipeline_def unit_scaler_def shift_scaler_def
      IdentityTransformer_def)

lemma shifted_single_forecast:
  "fst (single_step_forecast stub_trainer example_window shifted_pipeline) =
     [\<lparr>mean_arr = [5, 5, 5], mode_arr = [3/2, 3/2, 3/2], sigma_arr = [7/2, 7/2, 7/2],
        rescaling_min = 0, rescaling_max = 0\<rparr>,
      \<lparr>mean_arr = [5, 5, 5], mode_arr = [3/2, 3/2, 3/2], sigma_arr = [7/2, 7/2, 7/2],
        rescaling_min = - 1, rescaling_max = 3\<rparr>]"
  by (simp add: example_window_def shifted_pipeline_def vICL_init_def DICL_init_def
      stub_trainer_def unit_scaler_def shift_scaler_def IdentityTransformer_def make_pipeline_def
      single_step_forecast_def single_step_context_def transform_def pipeline_transform_def
      slice_to_def zeros_like_def shape1_def column_def stub_statistics_def eval_nat_numeral)

lemma sqrt_16: "sqrt 16 = 4"
  by (rule real_sqrt_unique) simp_all

lemma example_predicted_fields:
  "X example_predicted = Some example_window"
  "mean example_predicted = Some [[1, 2], [1, 2], [1, 2]]"
  "icl_object example_predicted =
     Some (fst (single_step_forecast stub_trainer example_window example_pipeline))"
  "n_features example_predicted = 2" "n_components example_predicted = 2"
proof -
  have shape: "shape1 example_window = n_features example_pipeline"
    by (simp add: example_config)
  have ws: "well_shaped (n_components example_pipeline) 3
     (fst (single_step_forecast stub_trainer example_window example_pipeline))"
    by (simp add: example_config example_single_well_shaped)
  note P = predict_single_step_well_shaped[OF shape ws]
  show "X example_predicted = Some example_window"
    by (simp add: example_predicted_def P)
  show "mean example_predicted = Some [[1, 2], [1, 2], [1, 2]]"
    by (simp add: example_predicted_def P example_config example_inverse_transform
        example_single_forecast component_matrix_def raw_mean_def raw_value_def eval_nat_numeral)
  show "icl_object example_predicted =
     Some (fst (single_step_forecast stub_trainer example_window example_pipeline))"
    by (simp add: example_predicted_def P)
  show "n_features example_predicted = 2" "n_components example_predicted = 2"
    by (simp_all add: example_predicted_def P example_config)
qed

lemma example_difference:
  "np_sub2 (slice_from example_window 1) [[1, 2], [1, 2], [1, 2]] = Inr [[0, 0], [0, 2], [0, 4]]"
  by (simp add: example_window_def slice_from_def np_sub2_def np_sub1_def broadcast_def)

lemma example_metrics:
  "fst (compute_metrics stub_ks b example_predicted) =
     Inr (Map.empty(''average_agg_squared_error'' \<mapsto> mean1 (slice_from [0, 2, 4] b),
          ''agg_squared_error'' \<mapsto> Array1 [0, 2, 4],
          ''average_perdim_squared_error'' \<mapsto> mean_axis0 (slice_from [[0, 0], [0, 4], [0, 16]] b),
          ''perdim_squared_error'' \<mapsto> Array1 [0, 2, 4],
          ''perdim_ks'' \<mapsto> Array1 [1 / 4, 1 / 4],
          ''agg_ks'' \<mapsto> mean1 [1 / 4, 1 / 4]))"
  by (simp add: compute_metrics_def example_predicted_fields example_difference norm_axis1_def
      sqrt_16 stub_ks_def eval_nat_numeral Let_def)

lemmas flag_defs = example_window_def flag_pipeline_def vICL_init_def DICL_init_def
  flag_trainer_def stub_trainer_def unit_scaler_def IdentityTransformer_def make_pipeline_def
  single_step_forecast_def multi_step_forecast_def single_step_context_def
  multi_step_context_def transform_def pipeline_transform_def slice_to_def zeros_like_def
  shape1_def column_def stub_statistics_def deterministic_statistics_def

lemma flag_config:
  "n_features flag_pipeline = 2" "n_components flag_pipeline = 2"
  "rescale_factor flag_pipeline = 7" "up_shift flag_pipeline = 3 / 2"
  by (simp_all add: flag_pipeline_def vICL_init_def DICL_init_def)

lemma flag_inverse_transform: "inverse_transform flag_pipeline Z = Z"
  by (simp add: inverse_transform_def pipeline_inverse_transform_def flag_pipeline_def
      vICL_init_def DICL_init_def make_pipeline_def unit_scaler_def IdentityTransformer_def)

lemma flag_contexts:
  "multi_step_context flag_pipeline example_window 1 = [[1, 0], [1, 2]]"
  "single_step_context flag_pipeline [[1, 0], [1, 2], [1, 4]] = [[1, 0], [1, 2]]"
  by (simp_all add: flag_defs)

lemma flag_multi_forecast:
  "fst (multi_step_forecast flag_trainer example_window 1 False False flag_pipeline) =
     [\<lparr>mean_arr = [3/2, 3/2, 3/2], mode_arr = [3/2, 3/2, 3/2], sigma_arr = [0, 0, 0],
        rescaling_min = 1, rescaling_max = 1\<rparr>,
      \<lparr>mean_arr = [3/2, 3/2, 3/2], mode_arr = [3/2, 3/2, 3/2], sigma_arr = [0, 0, 0],
        rescaling_min = 0, rescaling_max = 2\<rparr>]"
  by (simp add: flag_defs eval_nat_numeral)

lemma flag_truncated_forecast:
  "fst (single_step_forecast flag_trainer [[1, 0], [1, 2], [1, 4]] flag_pipeline) =
     [\<lparr>mean_arr = [5, 5], mode_arr = [3/2, 3/2], sigma_arr = [7/2, 7/2],
        rescaling_min = 1, rescaling_max = 1\<rparr>,
      \<lparr>mean_arr = [5, 5], mode_arr = [3/2, 3/2], sigma_arr = [7/2, 7/2],
        rescaling_min = 0, rescaling_max = 2\<rparr>]"
  by (simp add: flag_defs eval_nat_numeral)

lemma example_statistics:
  "rolling_statistics stub_trainer [[1, 0], [1, 2]] ts =
     [\<lparr>mean_arr = replicate 2 (stub_up ts + stub_rf ts / 2), mode_arr = replicate 2 (stub_up ts),
        sigma_arr = replicate 2 (stub_rf ts / 2), rescaling_min = 1, rescaling_max = 1\<rparr>,
      \<lparr>mean_arr = replicate 2 (stub_up ts + stub_rf ts / 2), mode_arr = replicate 2 (stub_up ts),
        sigma_arr = replicate 2 (stub_rf ts / 2), rescaling_min = 0, rescaling_max = 2\<rparr>]"
  "horizon_statistics stub_trainer [[1, 0], [1, 2]] 1 stochastic im ts =
     [\<lparr>mean_arr = replicate 3 (stub_up ts + stub_rf ts / 2), mode_arr = replicate 3 (stub_up ts),
        sigma_arr = replicate 3 (stub_rf ts / 2), rescaling_min = 1, rescaling_max = 1\<rparr>,
      \<lparr>mean_arr = replicate 3 (stub_up ts + stub_rf ts / 2), mode_arr = replicate 3 (stub_up ts),
        sigma_arr = replicate 3 (stub_rf ts / 2), rescaling_min = 0, rescaling_max = 2\<rparr>]"
  by (simp_all add: rolling_statistics_def horizon_statistics_def stub_trainer_def
      stub_statistics_def zeros_like_def shape1_def column_def eval_nat_numeral)

lemma example_trainer_extends_rolling:
  "trainer_extends_rolling stub_trainer 2 2 [[1, 0], [1, 2]] ts ts"
  by (simp add: trainer_extends_rolling_def example_statistics well_shaped_def
      agree_on_prefix_def eval_nat_numeral)

lemma fl_binade:
  assumes "2 powi k \<le> \<bar>x\<bar>" and "\<bar>x\<bar> < 2 powi (k + 1)"
  shows "fl x = round_to (k - 52) x"
proof -
  have pos: "0 < \<bar>x\<bar>" using assms(1) by (smt (verit) zero_less_power_int)
  have "(2::real) powr (real_of_int k + 1) = 2 powi (k + 1)"
    using powr_real_of_int'[of 2 "k + 1"] by simp
  then have "\<lfloor>log 2 \<bar>x\<bar>\<rfloor> = k"
    using assms pos by (simp add: floor_log_eq_powr_iff powr_real_of_int')
  with pos show ?thesis by (simp add: fl_def)
qed

lemma fl_values:
  "fl 0 = 0" "fl (- 1) = - 1" "fl (- (1 / 2)) = - (1 / 2)"
  "fl (1 / 1152921504606846976) = 1 / 1152921504606846976"
  "fl (- (576460752303423487 / 1152921504606846976)) = - (1 / 2)"
proof -
  show "fl 0 = 0" by (simp add: fl_def)
  show "fl (- 1) = - 1"
    using fl_binade[of 0 "- 1"] by (simp add: round_to_def Let_def)
  show "fl (- (1 / 2)) = - (1 / 2)"
    using fl_binade[of "- 1" "- (1 / 2)"] by (simp add: round_to_def Let_def)
  show "fl (1 / 1152921504606846976) = 1 / 1152921504606846976"
    using fl_binade[of "- 60" "1 / 1152921504606846976"] by (simp add: round_to_def Let_def)
  show "fl (- (576460752303423487 / 1152921504606846976)) = - (1 / 2)"
    using fl_binade[of "- 2" "- (576460752303423487 / 1152921504606846976)"]
    by (simp add: round_to_def Let_def)
qed

subsection \<open>Inverse rescaling\<close>

text \<open>
  C2. In \<open>predict_single_step\<close> and \<open>predict_multi_step\<close> alike, the stored mean and
  mode bundles are the inverse transform of the component-space arrays whose entry for
  step \<open>t\<close> and component \<open>c\<close> is
  \<open>(rescaled - up_shift) / rescale_factor * (max - min) + min\<close>, with that component's
  recorded minimum and maximum; the dispersion enters the bounds as
  \<open>rescaled_dispersion / rescale_factor * (max - min)\<close>, scaled and not unshifted.
\<close>

theorem inverse_rescaling_formula:
  assumes "shape1 win = n_features s"
    and "well_shaped (n_components s) L (trainer_output tr call win s)"
  shows
    "mean (snd (predict tr call win s)) = Some (inverse_transform s
       (component_matrix
          (\<lambda>obj t. raw_value (up_shift s) (rescale_factor s) (rescaling_min obj)
                      (rescaling_max obj) (mean_arr obj ! t))
          (trainer_output tr call win s) (n_components s) L)) \<and>
     mode (snd (predict tr call win s)) = Some (inverse_transform s
       (component_matrix
          (\<lambda>obj t. raw_value (up_shift s) (rescale_factor s) (rescaling_min obj)
                      (rescaling_max obj) (mode_arr obj ! t))
          (trainer_output tr call win s) (n_components s) L)) \<and>
     lb (snd (predict tr call win s)) = Some (inverse_transform s
       (component_matrix
          (\<lambda>obj t. raw_value (up_shift s) (rescale_factor s) (rescaling_min obj)
                      (rescaling_max obj) (mean_arr obj ! t) -
                    raw_dispersion (rescale_factor s) (rescaling_min obj)
                      (rescaling_max obj) (sigma_arr obj ! t))
          (trainer_output tr call win s) (n_components s) L)) \<and>
     ub (snd (predict tr call win s)) = Some (inverse_transform s
       (component_matrix
          (\<lambda>obj t. raw_value (up_shift s) (rescale_factor s) (rescaling_min obj)
                      (rescaling_max obj) (mean_arr obj ! t) +
                    raw_dispersion (rescale_factor s) (rescaling_min obj)
                      (rescaling_max obj) (sigma_arr obj ! t))
          (trainer_output tr call win s) (n_components s) L))"
  using predict_well_shaped(2-5)[OF assms]
  by (simp add: raw_mean_def[abs_def] raw_mode_def[abs_def] raw_sigma_def[abs_def])

theorem inverse_rescaling_formula_witness:
  "shape1 example_window = n_features example_pipeline \<and>
   well_shaped (n_components example_pipeline) 3
     (trainer_output stub_trainer Single_step example_window example_pipeline) \<and>
   mean (snd (predict_single_step stub_trainer example_window example_pipeline)) =
     Some [[1, 2], [1, 2], [1, 2]] \<and>
   mode (snd (predict_single_step stub_trainer example_window example_pipeline)) =
     Some [[1, 0], [1, 0], [1, 0]] \<and>
   lb (snd (predict_single_step stub_trainer example_window example_pipeline)) =
     Some [[1, 0], [1, 0], [1, 0]] \<and>
   ub (snd (predict_single_step stub_trainer example_window example_pipeline)) =
     Some [[1, 4], [1, 4], [1, 4]]"
proof -
  have shape: "shape1 example_window = n_features example_pipeline"
    by (simp add: example_config)
  have ws: "well_shaped (n_components example_pipeline) 3
     (trainer_output stub_trainer Single_step example_window example_pipeline)"
    by (simp add: example_config example_single_well_shaped)
  from inverse_rescaling_formula[OF shape ws] shape ws show ?thesis
    by (simp add: example_config example_inverse_transform example_single_forecast
        component_matrix_def raw_value_def raw_dispersion_def eval_nat_numeral)
qed

subsection \<open>Bounds are formed before the inversion\<close>

text \<open>
  C3. In every prediction call the lower and upper bundles are the disentangler's inverse
  transform of raw mean minus raw dispersion and of raw mean plus raw dispersion, formed
  entry by entry in component space; the mean bundle is the same inverse transform of the
  raw mean. (On the shifted pipeline the witness also evaluates what subtracting the
  inverted dispersion from the inverted mean would give: a different array.)
\<close>

theorem bounds_formed_before_inversion:
  assumes "shape1 win = n_features s"
    and "well_shaped (n_components s) L (trainer_output tr call win s)"
  defines "Mm \<equiv> component_matrix (raw_mean (up_shift s) (rescale_factor s))
      (trainer_output tr call win s) (n_components s) L"
  defines "Mo \<equiv> component_matrix (raw_mode (up_shift s) (rescale_factor s))
      (trainer_output tr call win s) (n_components s) L"
  defines "Ms \<equiv> component_matrix (raw_sigma (rescale_factor s))
      (trainer_output tr call win s) (n_components s) L"
  shows "fst (predict tr call win s) =
       Inr (inverse_transform s Mm, inverse_transform s Mo,
            inverse_transform s (map2 (map2 (-)) Mm Ms),
            inverse_transform s (map2 (map2 (+)) Mm Ms)) \<and>
     mean (snd (predict tr call win s)) = Some (inverse_transform s Mm) \<and>
     lb (snd (predict tr call win s)) = Some (inverse_transform s (map2 (map2 (-)) Mm Ms)) \<and>
     ub (snd (predict tr call win s)) = Some (inverse_transform s (map2 (map2 (+)) Mm Ms))"
  using predict_well_shaped(1-5)[OF assms(1,2)]
  by (simp add: Mm_def Mo_def Ms_def component_matrix_map2)

theorem bounds_formed_before_inversion_witness:
  "shape1 example_window = n_features shifted_pipeline \<and>
   well_shaped (n_components shifted_pipeline) 3
     (trainer_output stub_trainer Single_step example_window shifted_pipeline) \<and>
   mean (snd (predict_single_step stub_trainer example_window shifted_pipeline)) =
     Some (inverse_transform shifted_pipeline [[0, 1], [0, 1], [0, 1]]) \<and>
   lb (snd (predict_single_step stub_trainer example_window shifted_pipeline)) =
     Some (inverse_transform shifted_pipeline
       (map2 (map2 (-)) [[0, 1], [0, 1], [0, 1]] [[0, 2], [0, 2], [0, 2]])) \<and>
   lb (snd (predict_single_step stub_trainer example_window shifted_pipeline)) =
     Some [[1, 0], [1, 0], [1, 0]] \<and>
   ub (snd (predict_single_step stub_trainer example_window shifted_pipeline)) =
     Some [[1, 4], [1, 4], [1, 4]] \<and>
   map2 (map2 (-)) (inverse_transform shifted_pipeline [[0, 1], [0, 1], [0, 1]])
     (inverse_transform shifted_pipeline [[0, 2], [0, 2], [0, 2]]) =
     [[0, - 1], [0, - 1], [0, - 1]]"
proof -
  have shape: "shape1 example_window = n_features shifted_pipeline"
    by (simp add: example_config shifted_config)
  have ws: "well_shaped (n_components shifted_pipeline) 3
     (trainer_output stub_trainer Single_step example_window shifted_pipeline)"
    by (simp add: shifted_config shifted_single_forecast well_shaped_def)
  from bounds_formed_before_inversion[OF shape ws] shape ws show ?thesis
    by (simp add: shifted_config shifted_inverse_transform shifted_single_forecast
        component_matrix_def raw_mean_def raw_mode_def raw_sigma_def raw_value_def
        raw_dispersion_def eval_nat_numeral)
qed

subsection \<open>Shapes\<close>

text \<open>
  C4. For a window of \<open>T\<close> rows and \<open>F\<close> columns, \<open>F\<close> the configured feature count,
  a disentangler and a trainer that keep their side of the interface (the trainer returns
  one statistic per context row, and \<open>H\<close> more in the multi-step call), both calls return
  four arrays of \<open>T - 1\<close> rows and \<open>F\<close> columns, whatever the horizon \<open>H\<close> with
  \<open>1 \<le> H < T - 1\<close>; the multi-step context, the array the trainer's
  \<open>update_context\<close> receives, is the transform of all rows but the last \<open>H + 1\<close>, with
  \<open>T - 1 - H\<close> rows and \<open>C\<close> columns.
\<close>

theorem prediction_shapes:
  assumes win: "has_shape T F win" and T: "2 \<le> T"
    and F: "n_features s = F" and C: "n_components s = C"
    and dis: "disentangler_maps s F C"
  shows "(well_shaped C (length (single_step_context s win))
            (trainer_output tr Single_step win s) \<longrightarrow>
          (\<exists>m md l u. fst (predict_single_step tr win s) = Inr (m, md, l, u) \<and>
            has_shape (T - 1) F m \<and> has_shape (T - 1) F md \<and>
            has_shape (T - 1) F l \<and> has_shape (T - 1) F u)) \<and>
         (1 \<le> H \<and> H < int T - 1 \<and>
          well_shaped C (length (multi_step_context s win H) + nat H)
            (trainer_output tr (Multi_step H stochastic if_true_mean_else_mode) win s) \<longrightarrow>
          (\<exists>m md l u. fst (predict_multi_step tr win H stochastic if_true_mean_else_mode s) =
              Inr (m, md, l, u) \<and>
            has_shape (T - 1) F m \<and> has_shape (T - 1) F md \<and>
            has_shape (T - 1) F l \<and> has_shape (T - 1) F u)) \<and>
         (1 \<le> H \<and> H < int T - 1 \<longrightarrow>
          multi_step_context s win H = transform s (take (T - 1 - nat H) win) \<and>
          has_shape (T - 1 - nat H) C (multi_step_context s win H) \<and>
          multi_step_forecast tr win H stochastic if_true_mean_else_mode s =
            predict_long_horizon_llm tr H stochastic if_true_mean_else_mode
              (icl tr stochastic (Some if_true_mean_else_mode)
                (update_context tr (multi_step_context s win H) (multi_step_context s win H)
                   (zeros_like (multi_step_context s win H)) (T - 1 - nat H) True
                   (iclearner s))))"
proof -
  have len: "length win = T" using win by (simp add: has_shape_def)
  have shape: "shape1 win = n_features s"
    using has_shape_shape1[OF win] T F by simp
  have inv_shape: "\<And>f objs L. has_shape L F (inverse_transform s (component_matrix f objs C L))"
    using dis component_matrix_shape by (auto simp: disentangler_maps_def)
  have part1: "\<exists>m md l u. fst (predict_single_step tr win s) = Inr (m, md, l, u) \<and>
            has_shape (T - 1) F m \<and> has_shape (T - 1) F md \<and>
            has_shape (T - 1) F l \<and> has_shape (T - 1) F u"
    if single: "well_shaped C (length (single_step_context s win))
                  (trainer_output tr Single_step win s)"
  proof -
    have ctx1: "single_step_context s win = transform s (take (T - 1) win)"
      using len T by (simp add: single_step_context_def slice_to_def nat_diff_distrib')
    have "has_shape (T - 1) C (single_step_context s win)"
      unfolding ctx1 using dis has_shape_take[OF win, of "T - 1"]
      by (auto simp: disentangler_maps_def)
    then have L1: "length (single_step_context s win) = T - 1"
      by (simp add: has_shape_def)
    have ws1: "well_shaped (n_components s) (T - 1) (trainer_output tr Single_step win s)"
      using single L1 C by simp
    show ?thesis
      using predict_well_shaped(1)[OF shape ws1] inv_shape C by simp
  qed
  have part3: "multi_step_context s win H = transform s (take (T - 1 - nat H) win) \<and>
      has_shape (T - 1 - nat H) C (multi_step_context s win H)"
    if H: "1 \<le> H \<and> H < int T - 1"
  proof -
    have "nat (int T + (- 1 - H)) = T - 1 - nat H" using H by linarith
    then have ctx2: "multi_step_context s win H = transform s (take (T - 1 - nat H) win)"
      using H len by (simp add: multi_step_context_def slice_to_def)
    have "has_shape (T - 1 - nat H) C (multi_step_context s win H)"
      unfolding ctx2 using dis has_shape_take[OF win, of "T - 1 - nat H"]
      by (auto simp: disentangler_maps_def)
    with ctx2 show ?thesis by simp
  qed
  have part4: "multi_step_forecast tr win H stochastic if_true_mean_else_mode s =
      predict_long_horizon_llm tr H stochastic if_true_mean_else_mode
        (icl tr stochastic (Some if_true_mean_else_mode)
          (update_context tr (multi_step_context s win H) (multi_step_context s win H)
             (zeros_like (multi_step_context s win H)) (T - 1 - nat H) True (iclearner s)))"
    if H: "1 \<le> H \<and> H < int T - 1"
  proof -
    from part3[OF H, THEN conjunct2]
    have "length (multi_step_context s win H) = T - 1 - nat H"
      by (simp add: has_shape_def)
    then show ?thesis by (simp add: multi_step_forecast_def Let_def)
  qed
  have part2: "\<exists>m md l u. fst (predict_multi_step tr win H stochastic if_true_mean_else_mode s) =
              Inr (m, md, l, u) \<and>
            has_shape (T - 1) F m \<and> has_shape (T - 1) F md \<and>
            has_shape (T - 1) F l \<and> has_shape (T - 1) F u"
    if H: "1 \<le> H \<and> H < int T - 1"
      and multi: "well_shaped C (length (multi_step_context s win H) + nat H)
                  (trainer_output tr (Multi_step H stochastic if_true_mean_else_mode) win s)"
  proof -
    have nH: "nat H \<le> T - 2" "1 \<le> nat H" using H by linarith+
    from part3[OF H, THEN conjunct2]
    have "length (multi_step_context s win H) = T - 1 - nat H"
      by (simp add: has_shape_def)
    then have "length (multi_step_context s win H) + nat H = T - 1"
      using nH T by linarith
    then have ws2: "well_shaped (n_components s) (T - 1)
        (trainer_output tr (Multi_step H stochastic if_true_mean_else_mode) win s)"
      using multi C by simp
    show ?thesis
      using predict_well_shaped(1)[OF shape ws2] inv_shape C by simp
  qed
  from part1 part2 part3 part4 show ?thesis by blast
qed

theorem prediction_shapes_witness:
  "has_shape 4 2 example_window \<and> (2::nat) \<le> 4 \<and>
   n_features example_pipeline = 2 \<and> n_components example_pipeline = 2 \<and>
   disentangler_maps example_pipeline 2 2 \<and>
   well_shaped 2 (length (single_step_context example_pipeline example_window))
     (trainer_output stub_trainer Single_step example_window example_pipeline) \<and>
   (1::int) \<le> 1 \<and> (1::int) < int 4 - 1 \<and>
   well_shaped 2 (length (multi_step_context example_pipeline example_window 1) + nat 1)
     (trainer_output stub_trainer (Multi_step 1 False False) example_window example_pipeline) \<and>
   has_shape (4 - 1) 2 (fst (projr (fst (predict_single_step stub_trainer example_window example_pipeline)))) \<and>
   has_shape (4 - 1) 2 (fst (projr (fst (predict_multi_step stub_trainer example_window 1 False False example_pipeline)))) \<and>
   multi_step_context example_pipeline example_window 1 =
     transform example_pipeline (take (4 - 1 - nat 1) example_window) \<and>
   has_shape (4 - 1 - nat 1) 2 (multi_step_context example_pipeline example_window 1)"
proof -
  have win: "has_shape 4 2 example_window"
    by (simp add: has_shape_def example_window_def)
  have T: "(2::nat) \<le> 4" by simp
  have F: "n_features example_pipeline = 2" and C: "n_components example_pipeline = 2"
    by (simp_all add: example_config)
  have single: "well_shaped 2 (length (single_step_context example_pipeline example_window))
     (trainer_output stub_trainer Single_step example_window example_pipeline)"
  proof -
    have "length (single_step_context example_pipeline example_window) = 3"
      by (simp add: example_contexts)
    with example_single_well_shaped show ?thesis by (simp only: trainer_output.simps)
  qed
  have H: "(1::int) \<le> 1" "(1::int) < int 4 - 1" by simp_all
  have multi: "well_shaped 2 (length (multi_step_context example_pipeline example_window 1) + nat 1)
     (trainer_output stub_trainer (Multi_step 1 False False) example_window example_pipeline)"
  proof -
    have "length (multi_step_context example_pipeline example_window 1) + nat 1 = 3"
      by (simp add: example_contexts)
    with example_multi_well_shaped show ?thesis by (simp only: trainer_output.simps)
  qed
  from prediction_shapes[OF win T F C example_disentangler_maps,
      of stub_trainer 1 False False]
    win F C example_disentangler_maps single H multi
  show ?thesis by auto
qed

subsection \<open>A degenerate rescaling range\<close>

text \<open>
  C5, as the specification states it, fails: the stub trainer records minimum 1 and
  maximum 1 for the constant first column of the example window, and the call returns
  its four bundles; no error is raised.
\<close>

theorem degenerate_range_counterexample:
  "rescaling_max (fst (single_step_forecast stub_trainer example_window example_pipeline) ! 0) =
   rescaling_min (fst (single_step_forecast stub_trainer example_window example_pipeline) ! 0) \<and>
   fst (predict_single_step stub_trainer example_window example_pipeline) =
     Inr ([[1, 2], [1, 2], [1, 2]], [[1, 0], [1, 0], [1, 0]],
          [[1, 0], [1, 0], [1, 0]], [[1, 4], [1, 4], [1, 4]])"
proof -
  have shape: "shape1 example_window = n_features example_pipeline"
    by (simp add: example_config)
  have ws: "well_shaped (n_components example_pipeline) 3
     (fst (single_step_forecast stub_trainer example_window example_pipeline))"
    by (simp add: example_config example_single_well_shaped)
  from predict_single_step_well_shaped[OF shape ws] show ?thesis
    by (simp add: example_config example_inverse_transform example_single_forecast
        component_matrix_def raw_mean_def raw_mode_def raw_sigma_def raw_value_def
        raw_dispersion_def eval_nat_numeral)
qed

text \<open>
  C5, amended. A component whose recorded maximum equals its recorded minimum raises no
  error: with a well-shaped trainer output (and a rescale factor other than zero) the call
  returns its four bundles, and in the component-space arrays that are inverted, the
  entries of that component (mean, mode, lower and upper bound, at every step) are the
  recorded minimum.
\<close>

theorem degenerate_range_passes_through:
  assumes "shape1 win = n_features s"
    and "well_shaped (n_components s) L (trainer_output tr call win s)"
    and "c < n_components s" and "t < L"
    and "rescaling_max (trainer_output tr call win s ! c) =
         rescaling_min (trainer_output tr call win s ! c)"
    and "rescale_factor s \<noteq> 0"
  defines "objs \<equiv> trainer_output tr call win s"
  defines "Mm \<equiv> component_matrix (raw_mean (up_shift s) (rescale_factor s)) objs (n_components s) L"
  defines "Mo \<equiv> component_matrix (raw_mode (up_shift s) (rescale_factor s)) objs (n_components s) L"
  defines "Ml \<equiv> component_matrix (\<lambda>obj t. raw_mean (up_shift s) (rescale_factor s) obj t -
      raw_sigma (rescale_factor s) obj t) objs (n_components s) L"
  defines "Mu \<equiv> component_matrix (\<lambda>obj t. raw_mean (up_shift s) (rescale_factor s) obj t +
      raw_sigma (rescale_factor s) obj t) objs (n_components s) L"
  shows "fst (predict tr call win s) =
       Inr (inverse_transform s Mm, inverse_transform s Mo, inverse_transform s Ml,
            inverse_transform s Mu) \<and>
     Mm ! t ! c = rescaling_min (objs ! c) \<and> Mo ! t ! c = rescaling_min (objs ! c) \<and>
     Ml ! t ! c = rescaling_min (objs ! c) \<and> Mu ! t ! c = rescaling_min (objs ! c)"
  using predict_well_shaped(1)[OF assms(1,2)] assms(3,4,5)
  by (simp add: objs_def Mm_def Mo_def Ml_def Mu_def component_matrix_nth raw_mean_def
      raw_mode_def raw_sigma_def raw_value_def raw_dispersion_def)

theorem degenerate_range_passes_through_witness:
  "shape1 example_window = n_features example_pipeline \<and>
   well_shaped (n_components example_pipeline) 3
     (trainer_output stub_trainer Single_step example_window example_pipeline) \<and>
   (0::nat) < n_components example_pipeline \<and> (2::nat) < 3 \<and>
   rescaling_max (trainer_output stub_trainer Single_step example_window example_pipeline ! 0) =
   rescaling_min (trainer_output stub_trainer Single_step example_window example_pipeline ! 0) \<and>
   rescale_factor example_pipeline \<noteq> 0 \<and>
   fst (predict stub_trainer Single_step example_window example_pipeline) =
     Inr ([[1, 2], [1, 2], [1, 2]], [[1, 0], [1, 0], [1, 0]],
          [[1, 0], [1, 0], [1, 0]], [[1, 4], [1, 4], [1, 4]]) \<and>
   [[1, 2], [1, 2], [1, 2]] ! 2 ! 0 = (1::real)"
proof -
  have shape: "shape1 example_window = n_features example_pipeline"
    by (simp add: example_config)
  have ws: "well_shaped (n_components example_pipeline) 3
     (trainer_output stub_trainer Single_step example_window example_pipeline)"
    by (simp add: example_config example_single_well_shaped)
  have c: "(0::nat) < n_components example_pipeline" and t: "(2::nat) < 3"
    by (simp_all add: example_config)
  have deg: "rescaling_max (trainer_output stub_trainer Single_step example_window example_pipeline ! 0) =
      rescaling_min (trainer_output stub_trainer Single_step example_window example_pipeline ! 0)"
    by (simp add: example_single_forecast)
  have rf: "rescale_factor example_pipeline \<noteq> 0"
    by (simp add: example_config)
  from degenerate_range_passes_through[OF shape ws c t deg rf] shape ws c deg show ?thesis
    by (simp add: example_config example_inverse_transform example_single_forecast
        component_matrix_def raw_mean_def raw_mode_def raw_sigma_def raw_value_def
        raw_dispersion_def eval_nat_numeral)
qed

subsection \<open>Horizon one against the single step\<close>

text \<open>When the two trainer outputs agree on the first \<open>T - 2\<close> steps and the disentangler
  inverts row by row, the bundles agree on their first \<open>T - 2\<close> rows.\<close>

lemma prefix_agreement_carries_over:
  assumes T: "3 \<le> length win" and shape: "shape1 win = n_features s"
    and cfg: "same_configuration s s'"
    and rowwise: "\<And>Z. inverse_transform s Z = map row_inverse Z"
    and long: "well_shaped (n_components s) (length win - 1)
                 (trainer_output tr (Multi_step 1 stochastic if_true_mean_else_mode) win s)"
    and short: "well_shaped (n_components s) (length win - 2)
                 (trainer_output tr Single_step (slice_to win (int (length win) - 1)) s')"
    and agree: "agree_on_prefix (n_components s) (length win - 2)
                 (trainer_output tr (Multi_step 1 stochastic if_true_mean_else_mode) win s)
                 (trainer_output tr Single_step (slice_to win (int (length win) - 1)) s')"
  shows "\<exists>m md l u.
           fst (predict_multi_step tr win 1 stochastic if_true_mean_else_mode s) = Inr (m, md, l, u) \<and>
           fst (predict_single_step tr (slice_to win (int (length win) - 1)) s') =
             Inr (take (length win - 2) m, take (length win - 2) md,
                  take (length win - 2) l, take (length win - 2) u)"
proof -
  let ?T = "length win"
  let ?C = "n_components s"
  let ?long = "trainer_output tr (Multi_step 1 stochastic if_true_mean_else_mode) win s"
  let ?win' = "slice_to win (int ?T - 1)"
  let ?short = "trainer_output tr Single_step ?win' s'"
  let ?up = "up_shift s" and ?rf = "rescale_factor s"
  have win': "?win' = take (?T - 1) win"
    using T by (simp add: slice_to_def nat_diff_distrib')
  have shape': "shape1 ?win' = n_features s'"
    using T shape cfg by (simp add: win' shape1_take same_configuration_def)
  have short': "well_shaped (n_components s') (?T - 2) ?short"
    using short cfg by (simp add: same_configuration_def)
  have inv': "inverse_transform s' = inverse_transform s"
    and up': "up_shift s' = ?up" and rf': "rescale_factor s' = ?rf" and C': "n_components s' = ?C"
    using cfg by (simp_all add: same_configuration_def)
  have eq: "\<And>f g. (\<And>t c. t < ?T - 2 \<Longrightarrow> c < ?C \<Longrightarrow> f (?long ! c) t = g (?short ! c) t) \<Longrightarrow>
      take (?T - 2) (inverse_transform s (component_matrix f ?long ?C (?T - 1))) =
      inverse_transform s (component_matrix g ?short ?C (?T - 2))"
  proof -
    fix f g :: "ICLObject \<Rightarrow> nat \<Rightarrow> real"
    assume fg: "\<And>t c. t < ?T - 2 \<Longrightarrow> c < ?C \<Longrightarrow> f (?long ! c) t = g (?short ! c) t"
    have "take (?T - 2) (inverse_transform s (component_matrix f ?long ?C (?T - 1))) =
        inverse_transform s (take (?T - 2) (component_matrix f ?long ?C (?T - 1)))"
      by (simp add: rowwise take_map)
    also have "take (?T - 2) (component_matrix f ?long ?C (?T - 1)) =
        component_matrix f ?long ?C (?T - 2)"
      by (rule take_component_matrix) simp
    also have "component_matrix f ?long ?C (?T - 2) = component_matrix g ?short ?C (?T - 2)"
      by (rule component_matrix_cong) (rule fg)
    finally show "take (?T - 2) (inverse_transform s (component_matrix f ?long ?C (?T - 1))) =
      inverse_transform s (component_matrix g ?short ?C (?T - 2))" .
  qed
  note D = agree_on_prefixD[OF agree]
  have m: "take (?T - 2) (inverse_transform s (component_matrix (raw_mean ?up ?rf) ?long ?C (?T - 1))) =
      inverse_transform s (component_matrix (raw_mean ?up ?rf) ?short ?C (?T - 2))"
    by (rule eq) (simp add: raw_mean_def D del: trainer_output.simps)
  have md: "take (?T - 2) (inverse_transform s (component_matrix (raw_mode ?up ?rf) ?long ?C (?T - 1))) =
      inverse_transform s (component_matrix (raw_mode ?up ?rf) ?short ?C (?T - 2))"
    by (rule eq) (simp add: raw_mode_def D del: trainer_output.simps)
  have l: "take (?T - 2) (inverse_transform s (component_matrix
        (\<lambda>obj t. raw_mean ?up ?rf obj t - raw_sigma ?rf obj t) ?long ?C (?T - 1))) =
      inverse_transform s (component_matrix
        (\<lambda>obj t. raw_mean ?up ?rf obj t - raw_sigma ?rf obj t) ?short ?C (?T - 2))"
    by (rule eq) (simp add: raw_mean_def raw_sigma_def D del: trainer_output.simps)
  have u: "take (?T - 2) (inverse_transform s (component_matrix
        (\<lambda>obj t. raw_mean ?up ?rf obj t + raw_sigma ?rf obj t) ?long ?C (?T - 1))) =
      inverse_transform s (component_matrix
        (\<lambda>obj t. raw_mean ?up ?rf obj t + raw_sigma ?rf obj t) ?short ?C (?T - 2))"
    by (rule eq) (simp add: raw_mean_def raw_sigma_def D del: trainer_output.simps)
  have A: "fst (predict_multi_step tr win 1 stochastic if_true_mean_else_mode s) =
      Inr (inverse_transform s (component_matrix (raw_mean ?up ?rf) ?long ?C (?T - 1)),
           inverse_transform s (component_matrix (raw_mode ?up ?rf) ?long ?C (?T - 1)),
           inverse_transform s (component_matrix
             (\<lambda>obj t. raw_mean ?up ?rf obj t - raw_sigma ?rf obj t) ?long ?C (?T - 1)),
           inverse_transform s (component_matrix
             (\<lambda>obj t. raw_mean ?up ?rf obj t + raw_sigma ?rf obj t) ?long ?C (?T - 1)))"
    using predict_well_shaped(1)[OF shape long] by (simp only: predict.simps)
  have B: "fst (predict_single_step tr ?win' s') =
      Inr (take (?T - 2) (inverse_transform s (component_matrix (raw_mean ?up ?rf) ?long ?C (?T - 1))),
           take (?T - 2) (inverse_transform s (component_matrix (raw_mode ?up ?rf) ?long ?C (?T - 1))),
           take (?T - 2) (inverse_transform s (component_matrix
             (\<lambda>obj t. raw_mean ?up ?rf obj t - raw_sigma ?rf obj t) ?long ?C (?T - 1))),
           take (?T - 2) (inverse_transform s (component_matrix
             (\<lambda>obj t. raw_mean ?up ?rf obj t + raw_sigma ?rf obj t) ?long ?C (?T - 1))))"
    using predict_well_shaped(1)[OF shape' short']
    by (simp only: predict.simps inv' up' rf' C' m md l u)
  from A B show ?thesis by blast
qed

text \<open>
  C7, as the specification states it, fails. Both calls hand the trainer the same
  context, but \<open>predict_single_step\<close> always runs it with \<open>stochastic=True\<close> and
  \<open>predict_multi_step(X, 1)\<close> with the caller's flag, \<open>False\<close> by default: with the
  deterministic trainer that honours the flag, the first two rows of the multi-step mean
  bundle are not the single-step mean bundle on \<open>X[:T-1]\<close>.
\<close>

theorem horizon_one_flag_counterexample:
  "multi_step_context flag_pipeline example_window 1 =
     single_step_context flag_pipeline (slice_to example_window (int (length example_window) - 1)) \<and>
   fst (predict_multi_step flag_trainer example_window 1 False False flag_pipeline) =
     Inr ([[1, 0], [1, 0], [1, 0]], [[1, 0], [1, 0], [1, 0]],
          [[1, 0], [1, 0], [1, 0]], [[1, 0], [1, 0], [1, 0]]) \<and>
   fst (predict_single_step flag_trainer
          (slice_to example_window (int (length example_window) - 1)) flag_pipeline) =
     Inr ([[1, 1], [1, 1]], [[1, 0], [1, 0]], [[1, 0], [1, 0]], [[1, 2], [1, 2]]) \<and>
   take (length example_window - 2) [[1, 0], [1, 0], [1, 0]] \<noteq> [[1, 1], [1, 1::real]]"
proof -
  have shape: "shape1 example_window = n_features flag_pipeline"
    by (simp add: example_config flag_config)
  have shape': "shape1 [[1, 0], [1, 2], [1, 4::real]] = n_features flag_pipeline"
    by (simp add: shape1_def flag_config)
  have ws: "well_shaped (n_components flag_pipeline) 3
     (fst (multi_step_forecast flag_trainer example_window 1 False False flag_pipeline))"
    by (simp add: flag_config flag_multi_forecast well_shaped_def)
  have ws': "well_shaped (n_components flag_pipeline) 2
     (fst (single_step_forecast flag_trainer [[1, 0], [1, 2], [1, 4]] flag_pipeline))"
    by (simp add: flag_config flag_truncated_forecast well_shaped_def)
  have ctx: "multi_step_context flag_pipeline example_window 1 =
     single_step_context flag_pipeline (slice_to example_window (int (length example_window) - 1))"
    by (simp only: example_truncated_window flag_contexts)
  have multi: "fst (predict_multi_step flag_trainer example_window 1 False False flag_pipeline) =
     Inr ([[1, 0], [1, 0], [1, 0]], [[1, 0], [1, 0], [1, 0]],
          [[1, 0], [1, 0], [1, 0]], [[1, 0], [1, 0], [1, 0]])"
    using predict_multi_step_well_shaped[OF shape ws]
    by (simp add: flag_config flag_inverse_transform flag_multi_forecast
        component_matrix_def raw_mean_def raw_mode_def raw_sigma_def raw_value_def
        raw_dispersion_def eval_nat_numeral)
  have single: "fst (predict_single_step flag_trainer [[1, 0], [1, 2], [1, 4]] flag_pipeline) =
     Inr ([[1, 1], [1, 1]], [[1, 0], [1, 0]], [[1, 0], [1, 0]], [[1, 2], [1, 2]])"
    using predict_single_step_well_shaped[OF shape' ws']
    by (simp add: flag_config flag_inverse_transform flag_truncated_forecast
        component_matrix_def raw_mean_def raw_mode_def raw_sigma_def raw_value_def
        raw_dispersion_def eval_nat_numeral)
  have diff: "take (length example_window - 2) [[1, 0], [1, 0], [1, 0]] \<noteq> [[1, 1], [1, 1::real]]"
    by (simp add: example_config)
  from ctx multi single diff show ?thesis
    by (simp only: example_truncated_window) simp
qed

text \<open>
  C7, amended. For a window of at least three rows, a trainer whose horizon-one
  statistics for a context extend its rolling statistics for the same context whatever
  the generation flags, and a disentangler that inverts row by row: both calls hand the
  trainer the context \<open>transform(X[:T-2])\<close>, and the first \<open>T - 2\<close> rows of each bundle
  of \<open>predict_multi_step(X, 1)\<close>, under any flags, are the bundle
  \<open>predict_single_step\<close> returns on \<open>X[:T-1]\<close>.
\<close>

theorem horizon_one_extends_single_step:
  assumes T: "3 \<le> length win" and shape: "shape1 win = n_features s"
    and cfg: "same_configuration s s'"
    and rowwise: "\<And>Z. inverse_transform s Z = map row_inverse Z"
    and trainer: "trainer_extends_rolling tr (n_components s) (length win - 2)
                    (transform s (take (length win - 2) win)) (iclearner s) (iclearner s')"
  shows "\<exists>m md l u.
           fst (predict_multi_step tr win 1 stochastic if_true_mean_else_mode s) = Inr (m, md, l, u) \<and>
           fst (predict_single_step tr (slice_to win (int (length win) - 1)) s') =
             Inr (take (length win - 2) m, take (length win - 2) md,
                  take (length win - 2) l, take (length win - 2) u)"
proof -
  have tf: "transform s' = transform s" using cfg by (simp add: same_configuration_def)
  note ctx = horizon_one_contexts[OF T tf]
  have L: "length win - 2 + 1 = length win - 1" using T by linarith
  have long: "well_shaped (n_components s) (length win - 1)
      (trainer_output tr (Multi_step 1 stochastic if_true_mean_else_mode) win s)"
    using trainer L
    by (simp only: trainer_output_statistics ctx trainer_extends_rolling_def)
  have short: "well_shaped (n_components s) (length win - 2)
      (trainer_output tr Single_step (slice_to win (int (length win) - 1)) s')"
    using trainer by (simp only: trainer_output_statistics ctx trainer_extends_rolling_def)
  have agree: "agree_on_prefix (n_components s) (length win - 2)
      (trainer_output tr (Multi_step 1 stochastic if_true_mean_else_mode) win s)
      (trainer_output tr Single_step (slice_to win (int (length win) - 1)) s')"
    using trainer
    by (simp only: trainer_output_statistics ctx trainer_extends_rolling_def)
  from prefix_agreement_carries_over[OF T shape cfg rowwise long short agree]
  show ?thesis .
qed

theorem horizon_one_extends_single_step_witness:
  "(3::nat) \<le> length example_window \<and> shape1 example_window = n_features example_pipeline \<and>
   same_configuration example_pipeline example_pipeline \<and>
   (\<forall>Z. inverse_transform example_pipeline Z = map (\<lambda>r. r) Z) \<and>
   trainer_extends_rolling stub_trainer (n_components example_pipeline)
     (length example_window - 2)
     (transform example_pipeline (take (length example_window - 2) example_window))
     (iclearner example_pipeline) (iclearner example_pipeline) \<and>
   fst (predict_multi_step stub_trainer example_window 1 False False example_pipeline) =
     Inr ([[1, 1], [1, 1], [1, 1]], [[1, 0], [1, 0], [1, 0]],
          [[1, 0], [1, 0], [1, 0]], [[1, 2], [1, 2], [1, 2]]) \<and>
   fst (predict_single_step stub_trainer
          (slice_to example_window (int (length example_window) - 1)) example_pipeline) =
     Inr ([[1, 1], [1, 1]], [[1, 0], [1, 0]], [[1, 0], [1, 0]], [[1, 2], [1, 2]])"
proof -
  have T: "(3::nat) \<le> length example_window" by (simp add: example_config)
  have shape: "shape1 example_window = n_features example_pipeline"
    by (simp add: example_config)
  have cfg: "same_configuration example_pipeline example_pipeline"
    by (simp add: same_configuration_def)
  have rowwise: "\<And>Z. inverse_transform example_pipeline Z = map (\<lambda>r. r) Z"
    by (simp add: example_inverse_transform)
  have "transform example_pipeline (take (length example_window - 2) example_window) =
      [[1, 0], [1, 2]]"
    by (simp add: example_transform example_window_def)
  then have trainer: "trainer_extends_rolling stub_trainer (n_components example_pipeline)
     (length example_window - 2)
     (transform example_pipeline (take (length example_window - 2) example_window))
     (iclearner example_pipeline) (iclearner example_pipeline)"
    using example_trainer_extends_rolling by (simp add: example_config)
  have multi: "fst (predict_multi_step stub_trainer example_window 1 False False example_pipeline) =
     Inr ([[1, 1], [1, 1], [1, 1]], [[1, 0], [1, 0], [1, 0]],
          [[1, 0], [1, 0], [1, 0]], [[1, 2], [1, 2], [1, 2]])"
    using predict_multi_step_well_shaped[OF shape, of 3 stub_trainer 1 False False]
      example_multi_well_shaped
    by (simp add: example_config example_inverse_transform example_multi_forecast
        component_matrix_def raw_mean_def raw_mode_def raw_sigma_def raw_value_def
        raw_dispersion_def eval_nat_numeral)
  from horizon_one_extends_single_step[OF T shape cfg rowwise trainer, of False False]
    T shape cfg rowwise trainer multi
  show ?thesis by (auto simp: example_config(6))
qed

subsection \<open>Metrics before any prediction\<close>

text \<open>
  C6, as the specification states it, fails: the code makes no readiness check and has
  no not-ready error. On the freshly constructed example pipeline \<open>compute_metrics\<close>
  stops at its first attribute read, with the error Python raises for a missing
  attribute.
\<close>

theorem compute_metrics_fresh_counterexample:
  "fst (compute_metrics stub_ks 0 example_pipeline) = Inl (AttributeError ''X'')"
  by (simp add: compute_metrics_def example_pipeline_def vICL_init_def DICL_init_def)

text \<open>
  C6, amended. On every freshly constructed pipeline, on which no prediction call has set
  the attribute \<open>X\<close>, \<open>compute_metrics\<close> fails with the \<open>AttributeError\<close> of its first
  attribute read, returns no metrics record and leaves the pipeline as it was.
\<close>

theorem compute_metrics_not_ready:
  "compute_metrics compute_ks_metric burnin (DICL_init tr mm ss dis nf nc rf up) =
     (Inl (AttributeError ''X''), DICL_init tr mm ss dis nf nc rf up)"
  by (simp add: compute_metrics_def DICL_init_def)

subsection \<open>Metrics leave the pipeline alone\<close>

text \<open>
  C9. \<open>compute_metrics\<close> assigns to no attribute: the pipeline after the call, with its
  stored window, context length, four bundles and trainer output, is the pipeline before
  it, and a second call with the same burn-in returns the same record.
\<close>

theorem compute_metrics_frame:
  "snd (compute_metrics compute_ks_metric burnin s) = s \<and>
   fst (compute_metrics compute_ks_metric burnin (snd (compute_metrics compute_ks_metric burnin s))) =
   fst (compute_metrics compute_ks_metric burnin s)"
proof -
  have "snd (compute_metrics compute_ks_metric burnin s) = s"
    by (simp add: compute_metrics_def Let_def split: option.splits sum.splits prod.splits)
  then show ?thesis by simp
qed

subsection \<open>The entries of the metrics record\<close>

text \<open>
  C10. A metrics record that \<open>compute_metrics\<close> returns is consistent with itself: the
  entry \<open>agg_ks\<close> is the mean of the entry \<open>perdim_ks\<close> (their sum over their number,
  when there is at least one), and the entry \<open>average_agg_squared_error\<close> is the mean of
  the entry \<open>agg_squared_error\<close> from the burn-in on (for a burn-in within the steps,
  the sum over the steps \<open>[burnin, end)\<close> divided by their number).
\<close>

theorem metrics_internally_consistent:
  assumes "fst (compute_metrics compute_ks_metric burnin s) = Inr m"
  shows "\<exists>kss agg.
    m ''perdim_ks'' = Some (Array1 kss) \<and>
    m ''agg_ks'' = Some (mean1 kss) \<and>
    (kss \<noteq> [] \<longrightarrow> m ''agg_ks'' = Some (Scalar (sum_list kss / real (length kss)))) \<and>
    m ''agg_squared_error'' = Some (Array1 agg) \<and>
    m ''average_agg_squared_error'' = Some (mean1 (slice_from agg burnin)) \<and>
    (0 \<le> burnin \<and> burnin < int (length agg) \<longrightarrow>
       m ''average_agg_squared_error'' =
         Some (Scalar ((\<Sum>t = nat burnin..<length agg. agg ! t) / real (length agg - nat burnin))))"
proof -
  from compute_metrics_success[OF assms] obtain win mn diff objs where
    m: "m = (Map.empty(''average_agg_squared_error'' \<mapsto> mean1 (slice_from (norm_axis1 diff) burnin),
          ''agg_squared_error'' \<mapsto> Array1 (norm_axis1 diff),
          ''average_perdim_squared_error'' \<mapsto>
             mean_axis0 (slice_from (map (map (\<lambda>x. x\<^sup>2)) diff) burnin),
          ''perdim_squared_error'' \<mapsto> Array1 (norm_axis1 diff),
          ''perdim_ks'' \<mapsto> Array1 (fst (compute_ks_metric (slice_from win 1) objs (n_components s)
             (n_features s) (inverse_transform s) burnin)),
          ''agg_ks'' \<mapsto> mean1 (fst (compute_ks_metric (slice_from win 1) objs (n_components s)
             (n_features s) (inverse_transform s) burnin))))"
    by blast
  let ?kss = "fst (compute_ks_metric (slice_from win 1) objs (n_components s)
             (n_features s) (inverse_transform s) burnin)"
  let ?agg = "norm_axis1 diff"
  have 1: "m ''perdim_ks'' = Some (Array1 ?kss)" and 2: "m ''agg_ks'' = Some (mean1 ?kss)"
    and 3: "m ''agg_squared_error'' = Some (Array1 ?agg)"
    and 4: "m ''average_agg_squared_error'' = Some (mean1 (slice_from ?agg burnin))"
    by (simp_all add: m)
  have 5: "?kss \<noteq> [] \<longrightarrow> m ''agg_ks'' = Some (Scalar (sum_list ?kss / real (length ?kss)))"
    using 2 by (simp add: mean1_def)
  have 6: "0 \<le> burnin \<and> burnin < int (length ?agg) \<longrightarrow>
       m ''average_agg_squared_error'' =
         Some (Scalar ((\<Sum>t = nat burnin..<length ?agg. ?agg ! t) / real (length ?agg - nat burnin)))"
  proof
    assume b: "0 \<le> burnin \<and> burnin < int (length ?agg)"
    then have "slice_from ?agg burnin = drop (nat burnin) ?agg" and "nat burnin < length ?agg"
      by (simp_all add: slice_from_def) linarith
    then show "m ''average_agg_squared_error'' =
         Some (Scalar ((\<Sum>t = nat burnin..<length ?agg. ?agg ! t) / real (length ?agg - nat burnin)))"
      using 4 by (simp add: mean1_def sum_list_drop_nth)
  qed
  from 1 2 3 4 5 6 show ?thesis by blast
qed

theorem metrics_internally_consistent_witness:
  "(case fst (compute_metrics stub_ks 1 example_predicted) of
      Inl e \<Rightarrow> False
    | Inr m \<Rightarrow>
        m ''perdim_ks'' = Some (Array1 [1 / 4, 1 / 4]) \<and>
        m ''agg_ks'' = Some (Scalar (1 / 4)) \<and>
        m ''agg_squared_error'' = Some (Array1 [0, 2, 4]) \<and>
        m ''average_agg_squared_error'' = Some (Scalar 3))"
proof -
  obtain m where m: "fst (compute_metrics stub_ks 1 example_predicted) = Inr m"
    by (simp add: example_metrics)
  from metrics_internally_consistent[OF m] obtain kss agg where
    *: "m ''perdim_ks'' = Some (Array1 kss)"
       "kss \<noteq> [] \<longrightarrow> m ''agg_ks'' = Some (Scalar (sum_list kss / real (length kss)))"
       "m ''agg_squared_error'' = Some (Array1 agg)"
       "0 \<le> (1::int) \<and> 1 < int (length agg) \<longrightarrow>
          m ''average_agg_squared_error'' =
            Some (Scalar ((\<Sum>t = nat 1..<length agg. agg ! t) / real (length agg - nat 1)))"
    by blast
  from m have "m ''perdim_ks'' = Some (Array1 [1 / 4, 1 / 4])"
    and "m ''agg_squared_error'' = Some (Array1 [0, 2, 4])"
    by (auto simp: example_metrics)
  with * have kss: "kss = [1 / 4, 1 / 4]" and agg: "agg = [0, 2, 4]" by simp_all
  from *(2) kss have "m ''agg_ks'' = Some (Scalar (1 / 4))" by simp
  moreover from *(4) agg have "m ''average_agg_squared_error'' = Some (Scalar 3)"
    by (simp add: eval_nat_numeral)
  ultimately show ?thesis using m * kss agg by simp
qed

text \<open>
  C1 at the example: the differences between \<open>X[1:]\<close> and the mean bundle are
  \<open>[[0, 0], [0, 2], [0, 4]]\<close>, their squares \<open>[[0, 0], [0, 4], [0, 16]]\<close>. The entry
  \<open>perdim_squared_error\<close> holds the row norms \<open>[0, 2, 4]\<close> (the array stored under
  \<open>agg_squared_error\<close>), not the squares; the entry \<open>average_perdim_squared_error\<close> is
  the column mean of the squares, as claimed.
\<close>

theorem perdim_squared_error_entry_evaluated:
  "(case fst (compute_metrics stub_ks 0 example_predicted) of
      Inl e \<Rightarrow> None | Inr m \<Rightarrow> m ''perdim_squared_error'') = Some (Array1 [0, 2, 4]) \<and>
   map (map (\<lambda>x. x\<^sup>2)) [[0, 0], [0, 2], [0, 4]] = [[0, 0], [0, 4], [0, 16::real]] \<and>
   (case fst (compute_metrics stub_ks 0 example_predicted) of
      Inl e \<Rightarrow> None | Inr m \<Rightarrow> m ''average_perdim_squared_error'') = Some (Array1 [0, 20 / 3])"
  by (simp add: example_metrics slice_from_def mean_axis0_def shape1_def eval_nat_numeral)

subsection \<open>The round trip of the identity variant\<close>

lemma IdentityTransformer_round_trip:
  "stage_inverse_transform IdentityTransformer (stage_transform IdentityTransformer M) = M"
  by (simp add: IdentityTransformer_def)

text \<open>
  C8, as the specification states it, fails in float64. The constructor always puts the
  two scalers in front of \<open>IdentityTransformer\<close>, and they round: with the scalers fitted
  on the observations 0 and 1, the window \<open>[[2^-60]]\<close> is transformed to \<open>[[-1]]\<close>
  (the subtraction of the mean \<open>1/2\<close> absorbs it) and comes back as \<open>[[0]]\<close>.
\<close>

theorem float64_round_trip_counterexample:
  "transform float64_pipeline [[1 / 2 ^ 60]] = [[- 1]] \<and>
   inverse_transform float64_pipeline (transform float64_pipeline [[1 / 2 ^ 60]]) = [[0]] \<and>
   inverse_transform float64_pipeline (transform float64_pipeline [[1 / 2 ^ 60]]) \<noteq>
     [[1 / 2 ^ 60]]"
  by (simp add: float64_pipeline_def vICL_init_def DICL_init_def make_pipeline_def
      transform_def inverse_transform_def pipeline_transform_def pipeline_inverse_transform_def
      float64_MinMaxScaler_def float64_StandardScaler_def IdentityTransformer_def fl_values)

text \<open>
  C8, amended. The identity variant's disentangler is the composition, in this order, of
  the min-max stage, the standardization stage and \<open>IdentityTransformer\<close>, inverted in
  the reverse order; whenever each of the two scalers inverts its own transform exactly
  (as their affine maps do in exact arithmetic), \<open>inverse_transform(transform(X))\<close> is
  \<open>X\<close> for every \<open>X\<close>.
\<close>

theorem identity_variant_round_trip_exact_stages:
  fixes tr :: "'ts trainer" and nf :: nat and rf up :: real
  assumes "\<And>M. stage_inverse_transform MinMaxScaler (stage_transform MinMaxScaler M) = M"
    and "\<And>M. stage_inverse_transform StandardScaler (stage_transform StandardScaler M) = M"
  defines "s \<equiv> vICL_init tr MinMaxScaler StandardScaler nf rf up"
  shows "disentangler s = make_pipeline [MinMaxScaler, StandardScaler, IdentityTransformer] \<and>
     transform s M =
       stage_transform IdentityTransformer
         (stage_transform StandardScaler (stage_transform MinMaxScaler M)) \<and>
     inverse_transform s Z =
       stage_inverse_transform MinMaxScaler
         (stage_inverse_transform StandardScaler (stage_inverse_transform IdentityTransformer Z)) \<and>
     inverse_transform s (transform s M) = M"
  using assms(1,2)
  by (simp add: s_def inverse_transform_def transform_def vICL_init_def DICL_init_def
      make_pipeline_def pipeline_transform_def pipeline_inverse_transform_def
      IdentityTransformer_round_trip)

theorem identity_variant_round_trip_exact_stages_witness:
  "(\<forall>M. stage_inverse_transform unit_scaler (stage_transform unit_scaler M) = M) \<and>
   (\<forall>M. stage_inverse_transform shift_scaler (stage_transform shift_scaler M) = M) \<and>
   transform shifted_pipeline example_window = [[0, - 1], [0, 1], [0, 3], [0, 5]] \<and>
   inverse_transform shifted_pipeline (transform shifted_pipeline example_window) =
     example_window"
proof -
  have u: "\<And>M. stage_inverse_transform unit_scaler (stage_transform unit_scaler M) = M"
    by (simp add: unit_scaler_def)
  have sh: "\<And>M. stage_inverse_transform shift_scaler (stage_transform shift_scaler M) = M"
    by (simp add: shift_scaler_def comp_def)
  from identity_variant_round_trip_exact_stages[OF u sh, of stub_trainer 2 7 "3 / 2" example_window]
    u sh
  show ?thesis
    by (simp add: shifted_pipeline_def example_window_def shift_scaler_def unit_scaler_def
        IdentityTransformer_def)
qed

end
